theory Spec2Isabelle
  imports Complex_Main "HOL-Library.Word"
begin

unbundle bit_operations_syntax

section \<open>JavaScript values and strings\<close>

text \<open>
  The generator and the validator are CommonJS modules. Their data are plain JavaScript
  values: the validator walks whatever \<^verbatim>\<open>JSON.parse\<close> returns, the generator builds object
  literals. A value read back from a file is one of the six JSON kinds; \<open>JUndefined\<close> is
  what reading an absent property gives, and \<open>JNative\<close> stands for a member inherited from a
  built-in prototype (\<^verbatim>\<open>obj["constructor"]\<close>), which is a function or, for
  \<^verbatim>\<open>__proto__\<close>, the prototype object.

  Strings are lists of characters; the characters of this model are the 8-bit ones, which
  cover every literal of the source. Numbers are exact: a JavaScript number is a rational,
  and the operations the source applies to the numbers met here (comparison with 0 and 1,
  scaling a random value by 4 or 16, dividing a byte by 255) are modelled on the rationals
  embedded in \<open>real\<close>.
\<close>

datatype jsval =
    JUndefined
  | JNull
  | JBool bool
  | JNum real
  | JStr string
  | JArr "jsval list"
  | JObj "(string \<times> jsval) list"
  | JNative string

fun digits :: "nat \<Rightarrow> string" where
  "digits n =
     (if n < 10 then [''0123456789'' ! n]
      else digits (n div 10) @ [''0123456789'' ! (n mod 10)])"

declare digits.simps [simp del]

definition Number_toString :: "real \<Rightarrow> string" where
  \<comment> \<open>Integers print in decimal. For a fraction V8 prints the shortest decimal expansion
      of the double; the model keeps the exact value and prints its floor followed by a
      point, which is enough for every use below: the text of a fraction is never a file
      name or an identifier of a well-formed document.\<close>
  "Number_toString r =
     (let k = \<lfloor>r\<rfloor>;
          body = (if k < 0 then ''-'' @ digits (nat (- k)) else digits (nat k))
      in if r = of_int k then body else body @ ''.'')"

fun join_comma :: "string list \<Rightarrow> string" where
  "join_comma [] = []"
| "join_comma [s] = s"
| "join_comma (s # t # ss) = s @ '','' @ join_comma (t # ss)"

fun js_ToString :: "jsval \<Rightarrow> string" where
  "js_ToString JUndefined = ''undefined''"
| "js_ToString JNull = ''null''"
| "js_ToString (JBool b) = (if b then ''true'' else ''false'')"
| "js_ToString (JNum r) = Number_toString r"
| "js_ToString (JStr s) = s"
| "js_ToString (JArr xs) =
     join_comma (map (\<lambda>x. if x = JUndefined \<or> x = JNull then [] else js_ToString x) xs)"
| "js_ToString (JObj kvs) = ''[object Object]''"
| "js_ToString (JNative n) =
     (if n = ''__proto__'' then ''[object Object]''
      else ''function '' @ n @ ''() { [native code] }'')"

definition toUpperCase_char :: "char \<Rightarrow> char" where
  "toUpperCase_char c =
     (case map_of (zip ''abcdefghijklmnopqrstuvwxyz'' ''ABCDEFGHIJKLMNOPQRSTUVWXYZ'') c of
        Some u \<Rightarrow> u
      | None \<Rightarrow> c)"

definition toUpperCase :: "string \<Rightarrow> string" where
  \<comment> \<open>\<^verbatim>\<open>String.prototype.toUpperCase\<close> on ASCII text, the only text it is applied to.\<close>
  "toUpperCase s = map toUpperCase_char s"

section \<open>The random source\<close>

text \<open>
  \<^verbatim>\<open>Math.random()\<close> is global mutable state. The model threads it: a source is the
  sequence of values still to come, and a call returns the first and the rest. Every value
  of \<^verbatim>\<open>Math.random()\<close> lies in \<open>[0, 1)\<close>.
\<close>

type_synonym rng = "nat \<Rightarrow> real"

definition Math_random :: "rng \<Rightarrow> real \<times> rng" where
  "Math_random g = (g 0, (\<lambda>n. g (Suc n)))"

definition rng_ok :: "rng \<Rightarrow> bool" where
  "rng_ok g = (\<forall>n. 0 \<le> g n \<and> g n < 1)"

definition ToInt32 :: "real \<Rightarrow> int" where
  \<comment> \<open>The conversion a bitwise operator applies to its operand: truncate towards zero,
      wrap to 32 bits, read as two's complement.\<close>
  "ToInt32 x =
     (let t = (if 0 \<le> x then \<lfloor>x\<rfloor> else \<lceil>x\<rceil>);
          m = t mod 2 ^ 32
      in if 2 ^ 31 \<le> m then m - 2 ^ 32 else m)"

section \<open>Identifiers: \<^verbatim>\<open>generateUUID\<close> and \<^verbatim>\<open>isValidUUID\<close>\<close>

definition hex :: string where
  "hex = ''0123456789ABCDEF''"

definition index_text :: "string \<Rightarrow> int \<Rightarrow> string" where
  \<comment> \<open>\<^verbatim>\<open>uuid += hex[k]\<close>: an index out of range reads \<^verbatim>\<open>undefined\<close>, which \<^verbatim>\<open>+=\<close>
      appends as the text "undefined".\<close>
  "index_text s k = (if 0 \<le> k \<and> nat k < length s then [s ! nat k] else ''undefined'')"

definition uuid_char :: "nat \<Rightarrow> rng \<Rightarrow> string \<times> rng" where
  "uuid_char i g =
     (if i = 8 \<or> i = 13 \<or> i = 18 \<or> i = 23 then (''-'', g)
      else if i = 14 then (''4'', g)
      else if i = 19 then
        (let (r, g') = Math_random g in (index_text hex (ToInt32 (r * 4) OR 8), g'))
      else
        (let (r, g') = Math_random g in (index_text hex (ToInt32 (r * 16) OR 0), g')))"

function uuid_loop :: "nat \<Rightarrow> string \<Rightarrow> rng \<Rightarrow> string \<times> rng" where
  "uuid_loop i uuid g =
     (if i < 36 then (let (c, g') = uuid_char i g in uuid_loop (i + 1) (uuid @ c) g')
      else (uuid, g))"
  by pat_completeness auto
termination
  by (relation "measure (\<lambda>(i, uuid, g). 36 - i)") auto

declare uuid_loop.simps [simp del]

definition generateUUID :: "rng \<Rightarrow> string \<times> rng" where
  "generateUUID g = (let (uuid, g') = uuid_loop 0 [] g in (toUpperCase uuid, g'))"

text \<open>
  The validator's pattern
  \<^verbatim>\<open>/^[0-9A-F]{8}-[0-9A-F]{4}-4[0-9A-F]{3}-[89AB][0-9A-F]{3}-[0-9A-F]{12}$/i\<close>
  is a sequence of 36 character classes between two anchors, so a text matches when it has
  36 characters and each lies in the class at its position. Under the flag \<^verbatim>\<open>i\<close> a
  character lies in a class when its upper-case form is the upper-case form of a member.
\<close>

definition uuidRegex :: "string list" where
  "uuidRegex =
     replicate 8 ''0123456789ABCDEF'' @ [''-''] @
     replicate 4 ''0123456789ABCDEF'' @ [''-''] @
     [''4''] @ replicate 3 ''0123456789ABCDEF'' @ [''-''] @
     [''89AB''] @ replicate 3 ''0123456789ABCDEF'' @ [''-''] @
     replicate 12 ''0123456789ABCDEF''"

definition in_class_i :: "string \<Rightarrow> char \<Rightarrow> bool" where
  "in_class_i cl c = (toUpperCase_char c \<in> set (map toUpperCase_char cl))"

definition regex_test_i :: "string list \<Rightarrow> string \<Rightarrow> bool" where
  "regex_test_i classes s = list_all2 in_class_i classes s"

definition isValidUUID :: "jsval \<Rightarrow> bool" where
  \<comment> \<open>\<^verbatim>\<open>RegExp.prototype.test\<close> converts its argument to a string first.\<close>
  "isValidUUID uuid = regex_test_i uuidRegex (js_ToString uuid)"

section \<open>JavaScript truthiness and \<^verbatim>\<open>typeof\<close>\<close>

fun truthy :: "jsval \<Rightarrow> bool" where
  "truthy JUndefined = False"
| "truthy JNull = False"
| "truthy (JBool b) = b"
| "truthy (JNum r) = (r \<noteq> 0)"
| "truthy (JStr s) = (s \<noteq> [])"
| "truthy (JArr xs) = True"
| "truthy (JObj kvs) = True"
| "truthy (JNative n) = True"

fun typeof :: "jsval \<Rightarrow> string" where
  "typeof JUndefined = ''undefined''"
| "typeof JNull = ''object''"
| "typeof (JBool b) = ''boolean''"
| "typeof (JNum r) = ''number''"
| "typeof (JStr s) = ''string''"
| "typeof (JArr xs) = ''object''"
| "typeof (JObj kvs) = ''object''"
| "typeof (JNative n) = (if n = ''__proto__'' then ''object'' else ''function'')"

text \<open>
  What JavaScript throws. The message is what \<^verbatim>\<open>e.message\<close> reads.
\<close>

datatype js_exn = TypeError string | SyntaxError string | Error string

fun message :: "js_exn \<Rightarrow> string" where
  "message (TypeError m) = m"
| "message (SyntaxError m) = m"
| "message (Error m) = m"

section \<open>The node model: \<^verbatim>\<open>sketch-generator.cjs\<close>\<close>

text \<open>
  The constructors build object literals. Each literal is a record here; its constant
  \<^verbatim>\<open>_class\<close> tag is the record type, except for the layer base, whose tag is the argument
  \<^verbatim>\<open>classType\<close>. Optional properties of an argument object are \<open>option\<close> fields, \<open>None\<close>
  for an absent property. Coordinates, sizes and enumeration codes are integers, on which
  JavaScript's arithmetic is exact; colour channels and line heights are fractions.
  A colour argument is any value: \<^verbatim>\<open>parseColor\<close> tests its type itself.
\<close>

subsection \<open>\<^verbatim>\<open>parseColor\<close>\<close>

record color =
  alpha :: real
  red :: real
  green :: real
  blue :: real

definition StrWhiteSpaceChar :: "char \<Rightarrow> bool" where
  \<comment> \<open>Tab, line feed, vertical tab, form feed, carriage return, space, no-break space.\<close>
  "StrWhiteSpaceChar c = (c \<in> set [CHR 0x09, CHR 0x0A, CHR 0x0B, CHR 0x0C, CHR 0x0D, CHR 0x20, CHR 0xA0])"

fun index_of :: "char \<Rightarrow> string \<Rightarrow> nat option" where
  "index_of c [] = None"
| "index_of c (d # ds) = (if c = d then Some 0 else map_option Suc (index_of c ds))"

definition hex_value :: "char \<Rightarrow> nat option" where
  "hex_value c =
     (case index_of c ''0123456789abcdef'' of
        Some d \<Rightarrow> Some d
      | None \<Rightarrow> map_option (\<lambda>i. i + 10) (index_of c ''ABCDEF''))"

fun hex_prefix_value :: "nat \<Rightarrow> string \<Rightarrow> nat" where
  \<comment> \<open>The number written by the longest prefix of hexadecimal digits, read after \<open>acc\<close>.\<close>
  "hex_prefix_value acc [] = acc"
| "hex_prefix_value acc (c # cs) =
     (case hex_value c of None \<Rightarrow> acc | Some d \<Rightarrow> hex_prefix_value (16 * acc + d) cs)"

definition parseInt16 :: "string \<Rightarrow> real option" where
  \<comment> \<open>\<^verbatim>\<open>parseInt(s, 16)\<close>; \<open>None\<close> is \<^verbatim>\<open>NaN\<close>. Leading white space is skipped, a sign is
      read, a prefix \<^verbatim>\<open>0x\<close> or \<^verbatim>\<open>0X\<close> is dropped, and the digits up to the first character
      that is not one are the number.\<close>
  "parseInt16 s =
     (let s1 = dropWhile StrWhiteSpaceChar s;
          sign = (if s1 \<noteq> [] \<and> hd s1 = CHR ''-'' then - 1 else 1 :: real);
          s2 = (if s1 \<noteq> [] \<and> (hd s1 = CHR ''+'' \<or> hd s1 = CHR ''-'') then tl s1 else s1);
          s3 = (if take 2 s2 = ''0x'' \<or> take 2 s2 = ''0X'' then drop 2 s2 else s2)
      in if s3 = [] \<or> hex_value (hd s3) = None then None
         else Some (sign * real (hex_prefix_value 0 s3)))"

definition substr :: "string \<Rightarrow> nat \<Rightarrow> nat \<Rightarrow> string" where
  "substr s start len = take len (drop start s)"

definition channel :: "string \<Rightarrow> real" where
  \<comment> \<open>\<^verbatim>\<open>parseInt(t, 16) / 255 || 0\<close>: \<^verbatim>\<open>NaN\<close> and zero are falsy.\<close>
  "channel t = (case parseInt16 t of None \<Rightarrow> 0 | Some n \<Rightarrow> if n / 255 = 0 then 0 else n / 255)"

definition black :: color where
  "black = \<lparr>alpha = 1, red = 0, green = 0, blue = 0\<rparr>"

definition parseColor :: "jsval \<Rightarrow> color" where
  "parseColor colorStr =
     (if \<not> truthy colorStr \<or> typeof colorStr \<noteq> ''string'' then black
      else case colorStr of
        JStr s \<Rightarrow>
          (if take 1 s = ''#'' then
             (let hex = drop 1 s;
                  r = channel (substr hex 0 2);
                  g = channel (substr hex 2 2);
                  b = channel (substr hex 4 2)
              in \<lparr>alpha = 1, red = r, green = g, blue = b\<rparr>)
           else black)
      | _ \<Rightarrow> black)"

subsection \<open>\<^verbatim>\<open>createLayerBase\<close>\<close>

record frame =
  frame_x :: int
  frame_y :: int
  frame_width :: int
  frame_height :: int

record rect =
  rect_x :: int
  rect_y :: int
  rect_width :: int
  rect_height :: int
  rect_constrainProportions :: bool

record exportOptions =
  exportFormats :: "string list"
  includedLayerIds :: "string list"
  layerOptions :: int
  shouldTrim :: bool

record layer_options =
  constrainProportions :: "bool option"

record layer_base =
  class_tag :: string
  do_objectID :: string
  layer_frame :: rect
  resizingConstraint :: int
  resizingType :: int
  rotation :: int
  shouldBreakMaskChain :: bool
  booleanOperation :: int
  layer_exportOptions :: exportOptions
  isFixedToViewport :: bool
  isFlippedHorizontal :: bool
  isFlippedVertical :: bool
  isLocked :: bool
  isVisible :: bool
  isTemplate :: bool
  layerListExpandedType :: int
  nameIsFixed :: bool

definition RESIZING_CONSTRAINTS_NONE :: int where
  "RESIZING_CONSTRAINTS_NONE = 63"

definition or_false :: "bool option \<Rightarrow> bool" where
  \<comment> \<open>\<^verbatim>\<open>v || false\<close> on a flag that may be absent.\<close>
  "or_false v = (case v of None \<Rightarrow> False | Some b \<Rightarrow> b)"

definition or_int :: "int option \<Rightarrow> int \<Rightarrow> int" where
  \<comment> \<open>\<^verbatim>\<open>v || d\<close> on a number that may be absent: zero is falsy.\<close>
  "or_int v d = (case v of None \<Rightarrow> d | Some n \<Rightarrow> if n = 0 then d else n)"

definition or_string :: "string option \<Rightarrow> string \<Rightarrow> string" where
  \<comment> \<open>\<^verbatim>\<open>v || d\<close> on a text that may be absent: the empty text is falsy.\<close>
  "or_string v d = (case v of None \<Rightarrow> d | Some s \<Rightarrow> if s = [] then d else s)"

definition createLayerBase :: "string \<Rightarrow> frame \<Rightarrow> layer_options \<Rightarrow> rng \<Rightarrow> layer_base \<times> rng" where
  "createLayerBase classType fr options g =
     (let (uuid, g') = generateUUID g
      in (\<lparr>class_tag = classType,
           do_objectID = uuid,
           layer_frame = \<lparr>rect_x = frame_x fr, rect_y = frame_y fr,
             rect_width = frame_width fr, rect_height = frame_height fr,
             rect_constrainProportions = or_false (constrainProportions options)\<rparr>,
           resizingConstraint = RESIZING_CONSTRAINTS_NONE,
           resizingType = 0,
           rotation = 0,
           shouldBreakMaskChain = False,
           booleanOperation = - 1,
           layer_exportOptions = \<lparr>exportFormats = [], includedLayerIds = [],
             layerOptions = 0, shouldTrim = False\<rparr>,
           isFixedToViewport = False,
           isFlippedHorizontal = False,
           isFlippedVertical = False,
           isLocked = False,
           isVisible = True,
           isTemplate = False,
           layerListExpandedType = 0,
           nameIsFixed = False\<rparr>, g'))"

subsection \<open>\<^verbatim>\<open>createStyle\<close>\<close>

text \<open>
  A font name is a text. The one exception is the name \<^verbatim>\<open>createText\<close> reads out of the
  object literal \<^verbatim>\<open>CHINESE_FONT_MAP\<close>: for a key such as \<^verbatim>\<open>constructor\<close> the literal
  answers with the member it inherits from \<^verbatim>\<open>Object.prototype\<close>, which is not a text.
\<close>

datatype font_name = Family string | Inherited string

datatype color_arg = ColorObject color | ColorOther jsval

record shadow_options =
  shadow_offsetY :: "int option"
  shadow_blur :: "int option"

record style_options =
  opt_fills :: "jsval list option"
  opt_borderColor :: jsval
  opt_borderPosition :: "int option"
  opt_borderWidth :: "int option"
  opt_shadow :: "shadow_options option"
  opt_fontFamily :: "font_name option"
  opt_displayFontSize :: "int option"
  opt_fontSize :: "int option"
  opt_color :: "color_arg option"
  opt_alignment :: "int option"
  opt_verticalAlignment :: "int option"
  opt_cornerRadius :: "int option"
  opt_constrainProportions :: "bool option"

definition no_options :: style_options where
  \<comment> \<open>The empty object \<^verbatim>\<open>{}\<close>.\<close>
  "no_options =
     \<lparr>opt_fills = None, opt_borderColor = JUndefined, opt_borderPosition = None,
      opt_borderWidth = None, opt_shadow = None, opt_fontFamily = None,
      opt_displayFontSize = None, opt_fontSize = None, opt_color = None,
      opt_alignment = None, opt_verticalAlignment = None, opt_cornerRadius = None,
      opt_constrainProportions = None\<rparr>"

record blur =
  blur_isEnabled :: bool
  blur_center :: string
  blur_saturation :: real
  blur_type :: int
  blur_motionAngle :: real
  blur_radius :: real

record graphicsContextSettings =
  blendMode :: int
  opacity :: real

record colorControls =
  cc_isEnabled :: bool
  cc_brightness :: real
  cc_contrast :: real
  cc_hue :: real
  cc_saturation :: real

record borderOptions =
  bo_isEnabled :: bool
  lineCapStyle :: int
  lineJoinStyle :: int
  dashPattern :: "real list"

record gradient =
  elipseLength :: real
  gradient_from :: string
  gradient_to :: string
  gradientType :: int
  stops :: "color list"

record fill =
  fill_isEnabled :: bool
  fill_color :: color
  fill_fillType :: int
  noiseIndex :: int
  noiseIntensity :: int
  patternFillType :: int
  patternTileScale :: real
  fill_gradient :: gradient
  fill_contextSettings :: graphicsContextSettings

record border =
  border_isEnabled :: bool
  border_color :: color
  border_fillType :: int
  border_position :: int
  border_thickness :: int
  border_contextSettings :: graphicsContextSettings

record shadow =
  shadow_color :: color
  offsetX :: int
  offsetY :: int
  blurRadius :: int
  spread :: int

record fontDescriptor =
  font_name :: font_name
  font_size :: int

record style_paragraphStyle =
  sp_alignment :: int
  sp_maximumLineHeight :: real
  sp_minimumLineHeight :: real
  sp_paragraphSpacing :: int

record encodeAttributes =
  ea_MSAttributedStringFontAttribute :: fontDescriptor
  ea_paragraphStyle :: style_paragraphStyle
  ea_textStyleVerticalAlignmentKey :: int
  ea_MSAttributedStringColorAttribute :: color_arg

record textStyle =
  ts_verticalAlignment :: int
  ts_encodeAttributes :: encodeAttributes

record style =
  style_do_objectID :: string
  style_blur :: blur
  style_borders :: "border list"
  style_fills :: "fill list"
  style_shadows :: "shadow list"
  style_innerShadows :: "shadow list"
  style_contextSettings :: graphicsContextSettings
  startMarkerType :: int
  endMarkerType :: int
  miterLimit :: int
  windingRule :: int
  style_colorControls :: colorControls
  style_borderOptions :: borderOptions
  style_textStyle :: "textStyle option"

definition default_contextSettings :: graphicsContextSettings where
  "default_contextSettings = \<lparr>blendMode = 0, opacity = 1\<rparr>"

definition create_fill :: "jsval \<Rightarrow> fill" where
  \<comment> \<open>The function mapped over \<^verbatim>\<open>options.fills\<close>.\<close>
  "create_fill c =
     \<lparr>fill_isEnabled = True,
      fill_color = parseColor c,
      fill_fillType = 0,
      noiseIndex = 0,
      noiseIntensity = 0,
      patternFillType = 1,
      patternTileScale = 1,
      fill_gradient = \<lparr>elipseLength = 0, gradient_from = ''{0.500000, 0.000000}'',
        gradient_to = ''{0.500000, 1.000000}'', gradientType = 0, stops = []\<rparr>,
      fill_contextSettings = default_contextSettings\<rparr>"

definition font_truthy :: "font_name option \<Rightarrow> bool" where
  "font_truthy f = (case f of None \<Rightarrow> False | Some (Family s) \<Rightarrow> s \<noteq> [] | Some (Inherited k) \<Rightarrow> True)"

definition int_truthy :: "int option \<Rightarrow> bool" where
  "int_truthy v = (case v of None \<Rightarrow> False | Some n \<Rightarrow> n \<noteq> 0)"

definition color_truthy :: "color_arg option \<Rightarrow> bool" where
  "color_truthy c =
     (case c of None \<Rightarrow> False | Some (ColorObject k) \<Rightarrow> True | Some (ColorOther v) \<Rightarrow> truthy v)"

definition or_font :: "font_name option \<Rightarrow> font_name \<Rightarrow> font_name" where
  "or_font f d = (case f of None \<Rightarrow> d | Some n \<Rightarrow> if font_truthy f then n else d)"

definition or_color :: "color_arg option \<Rightarrow> color_arg \<Rightarrow> color_arg" where
  "or_color c d = (case c of None \<Rightarrow> d | Some k \<Rightarrow> if color_truthy c then k else d)"

definition create_textStyle :: "style_options \<Rightarrow> textStyle" where
  \<comment> \<open>The body of the last \<^verbatim>\<open>if\<close> of \<^verbatim>\<open>createStyle\<close>.\<close>
  "create_textStyle options =
     (let fontSize = or_int (opt_displayFontSize options) (or_int (opt_fontSize options) 16);
          fontFamily = or_font (opt_fontFamily options) (Family ''Roboto-Regular'');
          alignment = or_int (opt_alignment options) 0;
          verticalAlignment =
            (case opt_verticalAlignment options of None \<Rightarrow> 0 | Some v \<Rightarrow> v);
          textColor = or_color (opt_color options)
                        (ColorObject \<lparr>alpha = 1, red = 0, green = 0, blue = 0\<rparr>)
      in \<lparr>ts_verticalAlignment = verticalAlignment,
          ts_encodeAttributes =
            \<lparr>ea_MSAttributedStringFontAttribute =
               \<lparr>font_name = fontFamily, font_size = fontSize\<rparr>,
             ea_paragraphStyle =
               \<lparr>sp_alignment = alignment,
                sp_maximumLineHeight = of_int fontSize * 1.2,
                sp_minimumLineHeight = of_int fontSize * 1.2,
                sp_paragraphSpacing = 0\<rparr>,
             ea_textStyleVerticalAlignmentKey = verticalAlignment,
             ea_MSAttributedStringColorAttribute = textColor\<rparr>\<rparr>)"

definition createStyle :: "style_options \<Rightarrow> rng \<Rightarrow> style \<times> rng" where
  "createStyle options g =
     (let (uuid, g') = generateUUID g
      in (\<lparr>style_do_objectID = uuid,
           style_blur = \<lparr>blur_isEnabled = False, blur_center = ''{0.500000, 0.500000}'',
             blur_saturation = 1, blur_type = 0, blur_motionAngle = 0, blur_radius = 10\<rparr>,
           style_borders =
             (if truthy (opt_borderColor options) then
                [\<lparr>border_isEnabled = True,
                  border_color = parseColor (opt_borderColor options),
                  border_fillType = 0,
                  border_position = or_int (opt_borderPosition options) 1,
                  border_thickness = or_int (opt_borderWidth options) 1,
                  border_contextSettings = default_contextSettings\<rparr>]
              else []),
           style_fills =
             (case opt_fills options of
                None \<Rightarrow> []
              | Some fs \<Rightarrow> if length fs > 0 then map create_fill fs else []),
           style_shadows =
             (case opt_shadow options of
                None \<Rightarrow> []
              | Some sh \<Rightarrow>
                  [\<lparr>shadow_color = \<lparr>alpha = 0.15, red = 0, green = 0, blue = 0\<rparr>,
                    offsetX = 0,
                    offsetY = or_int (shadow_offsetY sh) 4,
                    blurRadius = or_int (shadow_blur sh) 12,
                    spread = 0\<rparr>]),
           style_innerShadows = [],
           style_contextSettings = default_contextSettings,
           startMarkerType = 0,
           endMarkerType = 0,
           miterLimit = 10,
           windingRule = 1,
           style_colorControls = \<lparr>cc_isEnabled = False, cc_brightness = 0, cc_contrast = 1,
             cc_hue = 0, cc_saturation = 1\<rparr>,
           style_borderOptions = \<lparr>bo_isEnabled = True, lineCapStyle = 0, lineJoinStyle = 0,
             dashPattern = []\<rparr>,
           style_textStyle =
             (if font_truthy (opt_fontFamily options) \<or> int_truthy (opt_displayFontSize options)
                   \<or> color_truthy (opt_color options)
              then Some (create_textStyle options) else None)\<rparr>, g'))"

subsection \<open>\<^verbatim>\<open>createRectangle\<close>\<close>

record curvePoint =
  cornerRadius :: int
  curveFrom :: string
  curveMode :: int
  curveTo :: string
  hasCurveFrom :: bool
  hasCurveTo :: bool
  point :: string

record rectangle = layer_base +
  rectangle_name :: string
  edited :: bool
  isClosed :: bool
  pointRadiusBehaviour :: int
  hasClippingMask :: bool
  clippingMaskMode :: int
  fixedRadius :: int
  hasConvertedToNewRoundCorners :: bool
  needsConvertionToNewRoundCorners :: bool
  points :: "curvePoint list"
  rectangle_style :: style

definition corner :: "int \<Rightarrow> string \<Rightarrow> curvePoint" where
  \<comment> \<open>One element of the literal \<^verbatim>\<open>layer.points\<close>: the three positions are the same text.\<close>
  "corner r pos =
     \<lparr>cornerRadius = r, curveFrom = pos, curveMode = 1, curveTo = pos,
      hasCurveFrom = False, hasCurveTo = False, point = pos\<rparr>"

definition createRectangle :: "frame \<Rightarrow> style_options \<Rightarrow> string \<Rightarrow> rng \<Rightarrow> rectangle \<times> rng" where
  "createRectangle fr style_spec name g =
     (let radius = or_int (opt_cornerRadius style_spec) 0;
          (layer, g1) = createLayerBase ''rectangle'' fr
             \<lparr>constrainProportions = Some (or_false (opt_constrainProportions style_spec))\<rparr> g;
          (st, g2) = createStyle style_spec g1
      in (layer_base.extend layer
            (rectangle.fields name False True 1 False 0 radius True False
               [corner radius ''{0, 0}'', corner radius ''{1, 0}'',
                corner radius ''{1, 1}'', corner radius ''{0, 1}'']
               st), g2))"

subsection \<open>\<^verbatim>\<open>createText\<close>\<close>

text \<open>
  The content of a text layer is a JavaScript string with characters beyond the 8-bit
  ones; it is the list of its UTF-16 code units. The pattern of \<^verbatim>\<open>createText\<close>, the one
  character class from U+4E00 to U+9FA5, has no
  anchor: it finds a code unit of that range anywhere in the text.
\<close>

type_synonym utf16 = "nat list"

definition utf16_of :: "string \<Rightarrow> utf16" where
  "utf16_of s = map of_char s"

definition hasChinese :: "utf16 \<Rightarrow> bool" where
  "hasChinese content = list_ex (\<lambda>c. 0x4e00 \<le> c \<and> c \<le> 0x9fa5) content"

definition CHINESE_FONT_MAP :: "(string \<times> string) list" where
  "CHINESE_FONT_MAP =
     [(''Roboto-Bold'', ''PingFangSC-Regular''),
      (''Roboto-Regular'', ''PingFangSC-Regular''),
      (''Roboto-Medium'', ''PingFangSC-Regular''),
      (''Roboto-Light'', ''PingFangSC-Regular'')]"

definition Object_prototype_names :: "string list" where
  \<comment> \<open>The members every object literal inherits; all of them are truthy.\<close>
  "Object_prototype_names =
     [''constructor'', ''__defineGetter__'', ''__defineSetter__'', ''hasOwnProperty'',
      ''__lookupGetter__'', ''__lookupSetter__'', ''isPrototypeOf'',
      ''propertyIsEnumerable'', ''toString'', ''valueOf'', ''__proto__'',
      ''toLocaleString'']"

definition displayFont :: "string \<Rightarrow> font_name" where
  \<comment> \<open>\<^verbatim>\<open>CHINESE_FONT_MAP[fontFamily] || 'PingFangSC-Regular'\<close>\<close>
  "displayFont fontFamily =
     (case map_of CHINESE_FONT_MAP fontFamily of
        Some f \<Rightarrow> Family f
      | None \<Rightarrow>
          if fontFamily \<in> set Object_prototype_names then Inherited fontFamily
          else Family ''PingFangSC-Regular'')"

definition Math_round :: "real \<Rightarrow> int" where
  "Math_round v = \<lfloor>v + 1 / 2\<rfloor>"

record text_options =
  text_color :: jsval
  text_fontSize :: "int option"
  text_fontFamily :: "string option"
  text_alignment :: "string option"

record attr_fontDescriptor =
  attr_font_name :: string
  attr_font_size :: int

record attr_paragraphStyle =
  ap_alignment :: int
  ap_maximumLineHeight :: real
  ap_minimumLineHeight :: real
  ap_paragraphSpacing :: int
  ap_lineHeightMultiple :: real
  ap_allowsDefaultTighteningForTruncation :: int

record string_attributes =
  sa_MSAttributedStringFontAttribute :: attr_fontDescriptor
  sa_kerning :: real
  sa_MSAttributedStringColorAttribute :: color
  sa_paragraphStyle :: attr_paragraphStyle
  sa_textStyleVerticalAlignmentKey :: int
  sa_MSAttributedStringTextTransformAttribute :: int
  sa_underlineStyle :: int
  sa_strikethroughStyle :: int

record stringAttribute =
  location :: nat
  attr_length :: nat
  attr_attributes :: string_attributes

record attributedString =
  as_string :: utf16
  as_attributes :: "stringAttribute list"

record text_layer = layer_base +
  text_name :: utf16
  text_attributedString :: attributedString
  textBehaviour :: int
  glyphBounds :: string
  lineSpacingBehaviour :: int
  automaticallyDrawOnUnderlyingPath :: bool
  dontSynchroniseWithSymbol :: bool
  text_style :: style

definition createText :: "utf16 \<Rightarrow> frame \<Rightarrow> text_options \<Rightarrow> rng \<Rightarrow> text_layer \<times> rng" where
  "createText content fr style_spec g =
     (let (layer, g1) = createLayerBase ''text'' fr \<lparr>constrainProportions = None\<rparr> g;
          name = (if take 30 content = [] then utf16_of ''Text'' else take 30 content);
          color = (if truthy (text_color style_spec) then parseColor (text_color style_spec)
                   else \<lparr>alpha = 1, red = 0, green = 0, blue = 0\<rparr>);
          fontSize = or_int (text_fontSize style_spec) 16;
          fontFamily = or_string (text_fontFamily style_spec) ''Roboto-Regular'';
          alignment = (if text_alignment style_spec = Some ''center'' then 2
                       else if text_alignment style_spec = Some ''right'' then 1 else 0 :: int);
          displayFontFamily = (if hasChinese content then displayFont fontFamily
                               else Family fontFamily);
          displayFontSize = (if hasChinese content then Math_round (of_int fontSize * 1.2)
                             else fontSize);
          attributed =
            \<lparr>as_string = content,
             as_attributes =
               [\<lparr>location = 0,
                 attr_length = length content,
                 attr_attributes =
                   \<lparr>sa_MSAttributedStringFontAttribute =
                      \<lparr>attr_font_name = fontFamily, attr_font_size = fontSize\<rparr>,
                    sa_kerning = 0,
                    sa_MSAttributedStringColorAttribute = color,
                    sa_paragraphStyle =
                      \<lparr>ap_alignment = alignment,
                       ap_maximumLineHeight = of_int fontSize * 1.2,
                       ap_minimumLineHeight = of_int fontSize * 1.2,
                       ap_paragraphSpacing = 0,
                       ap_lineHeightMultiple = 1.2,
                       ap_allowsDefaultTighteningForTruncation = 0\<rparr>,
                    sa_textStyleVerticalAlignmentKey = 2,
                    sa_MSAttributedStringTextTransformAttribute = 0,
                    sa_underlineStyle = 0,
                    sa_strikethroughStyle = 0\<rparr>\<rparr>]\<rparr>;
          verticalAlignment = (if alignment = 2 then 0 else 0 :: int);
          styleOptions =
            no_options\<lparr>opt_fills := Some [],
              opt_color := Some (ColorObject color),
              opt_fontSize := Some fontSize,
              opt_fontFamily := Some displayFontFamily,
              opt_displayFontSize := Some displayFontSize,
              opt_alignment := Some alignment,
              opt_verticalAlignment := Some verticalAlignment\<rparr>;
          (st, g2) = createStyle styleOptions g1
      in (layer_base.extend layer
            (text_layer.fields name attributed 0 [] 1 False True st), g2))"

text \<open>The two places where a text layer records its font.\<close>

definition style_level_font :: "text_layer \<Rightarrow> fontDescriptor option" where
  \<comment> \<open>\<^verbatim>\<open>layer.style.textStyle.encodeAttributes.MSAttributedStringFontAttribute\<close>\<close>
  "style_level_font t =
     map_option (\<lambda>ts. ea_MSAttributedStringFontAttribute (ts_encodeAttributes ts))
       (style_textStyle (text_style t))"

definition attribute_level_fonts :: "text_layer \<Rightarrow> attr_fontDescriptor list" where
  \<comment> \<open>The \<^verbatim>\<open>MSAttributedStringFontAttribute\<close> of every range of \<^verbatim>\<open>layer.attributedString\<close>.\<close>
  "attribute_level_fonts t =
     map (\<lambda>a. sa_MSAttributedStringFontAttribute (attr_attributes a))
       (as_attributes (text_attributedString t))"

subsection \<open>The \<^verbatim>\<open>dataTable\<close> arm of \<^verbatim>\<open>generateModule\<close>\<close>

text \<open>
  \<^verbatim>\<open>generateModule\<close> is a \<^verbatim>\<open>switch\<close> on \<^verbatim>\<open>module.type\<close>; the arm modelled here is
  \<^verbatim>\<open>case 'dataTable'\<close>. The module description belongs to the caller and the arm changes it
  (\<^verbatim>\<open>row.pop()\<close>), so the description is part of the state: the function returns it as the
  caller finds it afterwards. The rows are distinct arrays, as in a parsed configuration.
  A cell is a text (\<^verbatim>\<open>String(cell)\<close> of a text is the text). Reading
  \<^verbatim>\<open>module.columns[colIndex]\<close> throws when the description has no \<^verbatim>\<open>columns\<close>; what was
  popped before stays popped.
\<close>

datatype layer = RectangleLayer rectangle | TextLayer text_layer

record colorPalette =
  primary :: jsval
  secondary :: jsval
  background :: jsval
  surface :: jsval
  textPrimary :: jsval
  textSecondary :: jsval
  palette_border :: jsval

record module_context =
  ctx_x :: int
  ctx_y :: int
  ctx_width :: int
  ctx_colorPalette :: colorPalette

record column =
  column_name :: utf16
  column_width :: int

record dataTable_module =
  module_height :: "int option"
  module_title :: "utf16 option"
  module_columns :: "column list option"
  module_rows :: "utf16 list list option"
  module_hasCheckbox :: bool
  module_hasActions :: bool

definition text_spec :: "int \<Rightarrow> string \<Rightarrow> jsval \<Rightarrow> string \<Rightarrow> text_options" where
  \<comment> \<open>The literal \<^verbatim>\<open>{ fontSize, fontFamily, color, alignment }\<close>.\<close>
  "text_spec fontSize fontFamily color alignment =
     \<lparr>text_color = color, text_fontSize = Some fontSize, text_fontFamily = Some fontFamily,
      text_alignment = Some alignment\<rparr>"

definition mk_frame :: "int \<Rightarrow> int \<Rightarrow> int \<Rightarrow> int \<Rightarrow> frame" where
  "mk_frame fx fy w h = \<lparr>frame_x = fx, frame_y = fy, frame_width = w, frame_height = h\<rparr>"

fun column_headers :: "module_context \<Rightarrow> column list \<Rightarrow> int \<Rightarrow> rng \<Rightarrow> layer list \<times> rng" where
  \<comment> \<open>\<^verbatim>\<open>module.columns.forEach\<close>, with the running \<^verbatim>\<open>colX\<close>.\<close>
  "column_headers ctx [] colX g = ([], g)"
| "column_headers ctx (col # cols) colX g =
     (let (colHeader, g1) =
            createText (column_name col) (mk_frame colX (ctx_y ctx + 62) (column_width col) 20)
              (text_spec 13 ''Roboto-Medium'' (textSecondary (ctx_colorPalette ctx)) ''left'') g;
          (others, g2) = column_headers ctx cols (colX + column_width col) g1
      in (TextLayer colHeader # others, g2))"

definition cell_width :: "column list option \<Rightarrow> nat \<Rightarrow> js_exn + int" where
  \<comment> \<open>\<^verbatim>\<open>module.columns[colIndex]?.width || 80\<close>\<close>
  "cell_width columns colIndex =
     (case columns of
        None \<Rightarrow>
          Inl (TypeError (''Cannot read properties of undefined (reading '' @ [CHR 0x27]
                 @ digits colIndex @ [CHR 0x27] @ '')''))
      | Some cols \<Rightarrow>
          Inr (if colIndex < length cols then or_int (Some (column_width (cols ! colIndex))) 80
               else 80))"

fun row_cells ::
  "module_context \<Rightarrow> column list option \<Rightarrow> int \<Rightarrow> utf16 list \<Rightarrow> nat \<Rightarrow> int \<Rightarrow> rng
    \<Rightarrow> (js_exn + layer list) \<times> rng" where
  \<comment> \<open>\<^verbatim>\<open>row.forEach((cell, colIndex) => ...)\<close>, with the running \<^verbatim>\<open>cellX\<close>.\<close>
  "row_cells ctx columns rowY [] colIndex cellX g = (Inr [], g)"
| "row_cells ctx columns rowY (cell # cells) colIndex cellX g =
     (case cell_width columns colIndex of
        Inl e \<Rightarrow> (Inl e, g)
      | Inr w \<Rightarrow>
          (let (cellText, g1) =
                 createText cell (mk_frame cellX (rowY + 12) w 20)
                   (text_spec 13 ''Roboto-Regular'' (textPrimary (ctx_colorPalette ctx)) ''left'') g
           in case row_cells ctx columns rowY cells (Suc colIndex) (cellX + w) g1 of
                (Inl e, g2) \<Rightarrow> (Inl e, g2)
              | (Inr others, g2) \<Rightarrow> (Inr (TextLayer cellText # others), g2)))"

definition row_pop :: "'a list \<Rightarrow> 'a list" where
  \<comment> \<open>What \<^verbatim>\<open>row.pop()\<close> leaves of the array: an empty array stays empty.\<close>
  "row_pop row = butlast row"

definition table_row ::
  "module_context \<Rightarrow> dataTable_module \<Rightarrow> utf16 list \<Rightarrow> nat \<Rightarrow> rng
    \<Rightarrow> (js_exn + layer list) \<times> utf16 list \<times> rng" where
  \<comment> \<open>The callback of \<^verbatim>\<open>module.rows.forEach((row, rowIndex) => ...)\<close>; the second
      component is the row as the callback leaves it.\<close>
  "table_row ctx m row rowIndex g =
     (let pal = ctx_colorPalette ctx;
          rowY = ctx_y ctx + 92 + int rowIndex * 44;
          rowBg = (if rowIndex mod 2 = 0 then surface pal else background pal);
          (tableRow, g1) =
            createRectangle (mk_frame (ctx_x ctx + 16) rowY (ctx_width ctx - 32) 44)
              (no_options\<lparr>opt_fills := Some [rowBg]\<rparr>) (''Row '' @ digits (rowIndex + 1)) g;
          (checkbox, cellX, g2) =
            (if module_hasCheckbox m then
               (let (cb, g') =
                      createRectangle (mk_frame (ctx_x ctx + 20) (rowY + 14) 16 16)
                        (no_options\<lparr>opt_fills := Some [palette_border pal],
                           opt_cornerRadius := Some 2\<rparr>) ''Checkbox'' g1
                in ([RectangleLayer cb], ctx_x ctx + 20 + 30, g'))
             else ([], ctx_x ctx + 20, g1));
          row' = (if module_hasActions m then row_pop row else row);
          (cells, g3) = row_cells ctx (module_columns m) rowY row' 0 cellX g2
      in (case cells of
            Inl e \<Rightarrow> Inl e
          | Inr cell_layers \<Rightarrow> Inr (RectangleLayer tableRow # checkbox @ cell_layers),
          row', g3))"

fun table_rows ::
  "module_context \<Rightarrow> dataTable_module \<Rightarrow> utf16 list list \<Rightarrow> nat \<Rightarrow> rng
    \<Rightarrow> (js_exn + layer list) \<times> utf16 list list \<times> rng" where
  \<comment> \<open>\<^verbatim>\<open>module.rows.forEach\<close>: an exception ends the loop, and the rows after it are
      as they were.\<close>
  "table_rows ctx m [] rowIndex g = (Inr [], [], g)"
| "table_rows ctx m (row # rows) rowIndex g =
     (case table_row ctx m row rowIndex g of
        (Inl e, row', g1) \<Rightarrow> (Inl e, row' # rows, g1)
      | (Inr row_layers, row', g1) \<Rightarrow>
          (case table_rows ctx m rows (Suc rowIndex) g1 of
             (Inl e, rows', g2) \<Rightarrow> (Inl e, row' # rows', g2)
           | (Inr others, rows', g2) \<Rightarrow> (Inr (row_layers @ others), row' # rows', g2)))"

definition title_truthy :: "utf16 option \<Rightarrow> bool" where
  "title_truthy t = (case t of None \<Rightarrow> False | Some s \<Rightarrow> s \<noteq> [])"

definition generateModule_dataTable ::
  "dataTable_module \<Rightarrow> module_context \<Rightarrow> rng \<Rightarrow> (js_exn + layer list) \<times> dataTable_module \<times> rng" where
  "generateModule_dataTable m ctx g =
     (let cx = ctx_x ctx; cy = ctx_y ctx; w = ctx_width ctx; pal = ctx_colorPalette ctx;
          (tableBg, g1) =
            createRectangle (mk_frame cx cy w (or_int (module_height m) 300))
              (no_options\<lparr>opt_fills := Some [surface pal], opt_cornerRadius := Some 8\<rparr>)
              ''Data Table'' g;
          (title, g2) =
            (case module_title m of
               Some t \<Rightarrow>
                 if title_truthy (module_title m) then
                   (let (tableTitle, g') =
                          createText t (mk_frame (cx + 16) (cy + 16) (w - 32) 24)
                            (text_spec 16 ''Roboto-Bold'' (textPrimary pal) ''left'') g1
                    in ([TextLayer tableTitle], g'))
                 else ([], g1)
             | None \<Rightarrow> ([], g1));
          (addBtn, g3) =
            createRectangle (mk_frame (cx + w - 100) (cy + 12) 80 32)
              (no_options\<lparr>opt_fills := Some [primary pal], opt_cornerRadius := Some 4\<rparr>)
              ''Add Button'' g2;
          (addBtnText, g4) =
            createText [0x65b0, 0x589e] (mk_frame (cx + w - 100) (cy + 18) 80 20)
              (text_spec 13 ''Roboto-Medium'' (JStr ''#FFFFFF'') ''center'') g3;
          (theadBg, g5) =
            createRectangle (mk_frame (cx + 16) (cy + 52) (w - 32) 40)
              (no_options\<lparr>opt_fills := Some [background pal]\<rparr>) ''Table Header'' g4;
          (headers, g6) =
            (case module_columns m of
               None \<Rightarrow> ([], g5)
             | Some cols \<Rightarrow> column_headers ctx cols (cx + 20) g5);
          fixed = [RectangleLayer tableBg] @ title
                  @ [RectangleLayer addBtn, TextLayer addBtnText, RectangleLayer theadBg]
                  @ headers
      in case module_rows m of
           None \<Rightarrow> (Inr fixed, m, g6)
         | Some rows \<Rightarrow>
             (let (row_layers, rows', g7) = table_rows ctx m rows 0 g6
              in (case row_layers of
                    Inl e \<Rightarrow> Inl e
                  | Inr others \<Rightarrow> Inr (fixed @ others),
                  m\<lparr>module_rows := Some rows'\<rparr>, g7)))"

section \<open>Reading properties\<close>

text \<open>
  \<open>js_get v k\<close> is \<^verbatim>\<open>v[k]\<close> for a value \<open>v\<close> that is neither \<^verbatim>\<open>null\<close> nor \<^verbatim>\<open>undefined\<close>
  (reading a property of those throws; every function below tests for them where the
  source can meet them). An object answers with its own property, then with what it
  inherits; an array with its length, its elements and what it inherits; a string with its
  length and its characters. The inherited members of strings, numbers and booleans are
  left out: no key the source reads from such a value names one.
\<close>

definition Array_prototype_names :: "string list" where
  "Array_prototype_names =
     [''at'', ''concat'', ''copyWithin'', ''entries'', ''every'', ''fill'', ''filter'',
      ''find'', ''findIndex'', ''findLast'', ''findLastIndex'', ''flat'', ''flatMap'',
      ''forEach'', ''includes'', ''indexOf'', ''join'', ''keys'', ''lastIndexOf'', ''map'',
      ''pop'', ''push'', ''reduce'', ''reduceRight'', ''reverse'', ''shift'', ''slice'',
      ''some'', ''sort'', ''splice'', ''toReversed'', ''toSorted'', ''toSpliced'',
      ''unshift'', ''values'', ''with'']"

fun decimal_value :: "nat \<Rightarrow> string \<Rightarrow> nat option" where
  "decimal_value acc [] = Some acc"
| "decimal_value acc (c # cs) =
     (case index_of c ''0123456789'' of
        None \<Rightarrow> None
      | Some d \<Rightarrow> decimal_value (10 * acc + d) cs)"

definition array_index :: "string \<Rightarrow> nat option" where
  \<comment> \<open>A key is an array index when it is the decimal text of a number, without leading zeros.\<close>
  "array_index k =
     (if k = [] \<or> (hd k = CHR ''0'' \<and> k \<noteq> ''0'') then None else decimal_value 0 k)"

definition js_get :: "jsval \<Rightarrow> string \<Rightarrow> jsval" where
  "js_get v k =
     (case v of
        JObj kvs \<Rightarrow>
          (case map_of kvs k of
             Some w \<Rightarrow> w
           | None \<Rightarrow> if k \<in> set Object_prototype_names then JNative k else JUndefined)
      | JArr xs \<Rightarrow>
          (if k = ''length'' then JNum (real (length xs))
           else case array_index k of
                  Some i \<Rightarrow> if i < length xs then xs ! i else JUndefined
                | None \<Rightarrow>
                    if k \<in> set Array_prototype_names \<or> k \<in> set Object_prototype_names
                    then JNative k else JUndefined)
      | JStr s \<Rightarrow>
          (if k = ''length'' then JNum (real (length s))
           else case array_index k of
                  Some i \<Rightarrow> if i < length s then JStr [s ! i] else JUndefined
                | None \<Rightarrow> JUndefined)
      | _ \<Rightarrow> JUndefined)"

definition nullish :: "jsval \<Rightarrow> bool" where
  "nullish v = (v = JUndefined \<or> v = JNull)"

definition cannot_read :: "jsval \<Rightarrow> string \<Rightarrow> js_exn" where
  \<comment> \<open>What reading the property \<open>k\<close> of \<^verbatim>\<open>null\<close> or \<^verbatim>\<open>undefined\<close> throws.\<close>
  "cannot_read v k =
     TypeError (''Cannot read properties of '' @ js_ToString v @ '' (reading '' @ [CHR 0x27]
       @ k @ [CHR 0x27] @ '')'')"

definition is_object :: "jsval \<Rightarrow> bool" where
  \<comment> \<open>The negation of the guard \<^verbatim>\<open>!v || typeof v !== 'object'\<close>.\<close>
  "is_object v = (truthy v \<and> typeof v = ''object'')"

definition isArray :: "jsval \<Rightarrow> bool" where
  "isArray v = (case v of JArr xs \<Rightarrow> True | _ \<Rightarrow> False)"

definition elements :: "jsval \<Rightarrow> jsval list" where
  "elements v = (case v of JArr xs \<Rightarrow> xs | _ \<Rightarrow> [])"

definition Object_entries :: "jsval \<Rightarrow> (string \<times> jsval) list" where
  \<comment> \<open>The own properties in the order of enumeration: array indices first, ascending,
      then the other keys as they were added.\<close>
  "Object_entries v =
     (case v of
        JObj kvs \<Rightarrow>
          sort_key (\<lambda>(k, w). case array_index k of Some i \<Rightarrow> i | None \<Rightarrow> 0)
            (filter (\<lambda>(k, w). array_index k \<noteq> None) kvs)
          @ filter (\<lambda>(k, w). array_index k = None) kvs
      | JArr xs \<Rightarrow> map (\<lambda>i. (digits i, xs ! i)) [0 ..< length xs]
      | _ \<Rightarrow> [])"

section \<open>The structural validator: \<^verbatim>\<open>sketch-validator.cjs\<close>\<close>

text \<open>
  Every validator collects messages in a local array and returns it. A validator whose
  callback reads a property of an array element can throw, when the element is
  \<^verbatim>\<open>null\<close>; its result is then the exception and the messages it had collected are lost
  with its local array. Those validators return a sum; the others return the list.
\<close>

definition chk :: "bool \<Rightarrow> string \<Rightarrow> string list" where
  \<comment> \<open>\<^verbatim>\<open>if (cond) errors.push(msg)\<close>\<close>
  "chk cond msg = (if cond then [msg] else [])"

definition not_number :: "jsval \<Rightarrow> bool" where
  "not_number v = (typeof v \<noteq> ''number'')"

definition not_string :: "jsval \<Rightarrow> bool" where
  "not_string v = (typeof v \<noteq> ''string'')"

definition not_boolean :: "jsval \<Rightarrow> bool" where
  "not_boolean v = (typeof v \<noteq> ''boolean'')"

definition out_of_unit :: "jsval \<Rightarrow> bool" where
  \<comment> \<open>\<^verbatim>\<open>typeof v !== 'number' || v < 0 || v > 1\<close>\<close>
  "out_of_unit v = (case v of JNum r \<Rightarrow> r < 0 \<or> r > 1 | _ \<Rightarrow> True)"

definition validateColor :: "jsval \<Rightarrow> string \<Rightarrow> string list" where
  "validateColor color path =
     (if \<not> is_object color then [path @ '' must be an object'']
      else
        chk (js_get color ''_class'' \<noteq> JStr ''color'') (path @ ''._class must be \"color\"'')
        @ concat (map (\<lambda>prop. chk (out_of_unit (js_get color prop))
                         (path @ ''.'' @ prop @ '' must be a number between 0 and 1''))
                   [''red'', ''green'', ''blue'', ''alpha'']))"

definition validateRect :: "jsval \<Rightarrow> string \<Rightarrow> string list" where
  "validateRect rect path =
     (if \<not> is_object rect then [path @ '' must be an object'']
      else
        chk (js_get rect ''_class'' \<noteq> JStr ''rect'') (path @ ''._class must be \"rect\"'')
        @ concat (map (\<lambda>prop. chk (not_number (js_get rect prop))
                         (path @ ''.'' @ prop @ '' must be a number''))
                   [''x'', ''y'', ''width'', ''height'']))"

definition validateRulerData :: "jsval \<Rightarrow> string \<Rightarrow> string list" where
  "validateRulerData data path =
     (if \<not> is_object data then [path @ '' must be an object'']
      else
        chk (js_get data ''_class'' \<noteq> JStr ''rulerData'')
          (path @ ''._class must be \"rulerData\"'')
        @ chk (not_number (js_get data ''base'')) (path @ ''.base must be a number'')
        @ chk (\<not> isArray (js_get data ''guides'')) (path @ ''.guides must be an array''))"

definition validateExportOptions :: "jsval \<Rightarrow> string \<Rightarrow> string list" where
  "validateExportOptions options path =
     (if \<not> is_object options then [path @ '' must be an object'']
      else
        chk (js_get options ''_class'' \<noteq> JStr ''exportOptions'')
          (path @ ''._class must be \"exportOptions\"'')
        @ chk (\<not> isArray (js_get options ''exportFormats''))
            (path @ ''.exportFormats must be an array'')
        @ chk (\<not> isArray (js_get options ''includedLayerIds''))
            (path @ ''.includedLayerIds must be an array'')
        @ chk (not_number (js_get options ''layerOptions''))
            (path @ ''.layerOptions must be a number'')
        @ chk (not_boolean (js_get options ''shouldTrim''))
            (path @ ''.shouldTrim must be a boolean''))"

text \<open>
  The pattern of a point, \<^verbatim>\<open>/^\{-?\d+(\.\d+)?, -?\d+(\.\d+)?\}$/\<close>: the classes of its parts
  are disjoint, so reading the text from the left decides the match.
\<close>

definition is_digit :: "char \<Rightarrow> bool" where
  "is_digit c = (index_of c ''0123456789'' \<noteq> None)"

definition match_number :: "string \<Rightarrow> string option" where
  \<comment> \<open>\<^verbatim>\<open>-?\d+(\.\d+)?\<close> at the start of the text; the result is what follows the match.\<close>
  "match_number s =
     (let s1 = (if take 1 s = ''-'' then drop 1 s else s);
          s2 = dropWhile is_digit s1
      in if takeWhile is_digit s1 = [] then None
         else if take 1 s2 = ''.'' \<and> takeWhile is_digit (drop 1 s2) \<noteq> []
              then Some (dropWhile is_digit (drop 1 s2))
              else Some s2)"

definition pointPattern_test :: "string \<Rightarrow> bool" where
  "pointPattern_test s =
     (take 1 s = ''{'' \<and>
      (case match_number (drop 1 s) of
         None \<Rightarrow> False
       | Some r \<Rightarrow>
           take 2 r = '', '' \<and>
           (case match_number (drop 2 r) of None \<Rightarrow> False | Some e \<Rightarrow> e = ''}'')))"

definition not_point_string :: "jsval \<Rightarrow> bool" where
  \<comment> \<open>\<^verbatim>\<open>typeof v !== 'string' || !pointPattern.test(v)\<close>\<close>
  "not_point_string v = (case v of JStr s \<Rightarrow> \<not> pointPattern_test s | _ \<Rightarrow> True)"

definition validateCurvePoint :: "jsval \<Rightarrow> string \<Rightarrow> string list" where
  "validateCurvePoint pt path =
     (if \<not> is_object pt then [path @ '' must be an object'']
      else
        chk (js_get pt ''_class'' \<noteq> JStr ''curvePoint'')
          (path @ ''._class must be \"curvePoint\"'')
        @ chk (not_number (js_get pt ''cornerRadius''))
            (path @ ''.cornerRadius must be a number'')
        @ chk (not_number (js_get pt ''curveMode'')) (path @ ''.curveMode must be a number'')
        @ chk (not_boolean (js_get pt ''hasCurveFrom''))
            (path @ ''.hasCurveFrom must be a boolean'')
        @ chk (not_boolean (js_get pt ''hasCurveTo''))
            (path @ ''.hasCurveTo must be a boolean'')
        @ concat (map (\<lambda>prop. chk (not_point_string (js_get pt prop))
                         (path @ ''.'' @ prop @ '' must be a point string like \"{0, 0}\"''))
                   [''point'', ''curveFrom'', ''curveTo'']))"

definition validateFill :: "jsval \<Rightarrow> string \<Rightarrow> string list" where
  "validateFill fill path =
     (if \<not> is_object fill then [path @ '' must be an object'']
      else
        chk (js_get fill ''_class'' \<noteq> JStr ''fill'') (path @ ''._class must be \"fill\"'')
        @ chk (not_number (js_get fill ''fillType'')) (path @ ''.fillType must be a number'')
        @ chk (not_boolean (js_get fill ''isEnabled''))
            (path @ ''.isEnabled must be a boolean'')
        @ (if truthy (js_get fill ''color'')
           then validateColor (js_get fill ''color'') (path @ ''.color'') else []))"

definition indexed :: "'a list \<Rightarrow> ('a \<times> nat) list" where
  \<comment> \<open>The pairs \<^verbatim>\<open>(element, i)\<close> that \<^verbatim>\<open>forEach\<close> passes to its callback.\<close>
  "indexed xs = zip xs [0 ..< length xs]"

definition validateStyle :: "jsval \<Rightarrow> string \<Rightarrow> string list" where
  "validateStyle style path =
     (if \<not> is_object style then [path @ '' must be an object'']
      else
        chk (js_get style ''_class'' \<noteq> JStr ''style'') (path @ ''._class must be \"style\"'')
        @ chk (truthy (js_get style ''do_objectID'') \<and> \<not> isValidUUID (js_get style ''do_objectID''))
            (path @ ''.do_objectID must be a valid UUID'')
        @ (if \<not> isArray (js_get style ''fills'') then [path @ ''.fills must be an array'']
           else concat (map (\<lambda>(fill, i). validateFill fill (path @ ''.fills['' @ digits i @ '']''))
                          (indexed (elements (js_get style ''fills'')))))
        @ chk (\<not> isArray (js_get style ''borders'')) (path @ ''.borders must be an array'')
        @ chk (\<not> isArray (js_get style ''shadows'')) (path @ ''.shadows must be an array'')
        @ chk (\<not> isArray (js_get style ''innerShadows''))
            (path @ ''.innerShadows must be an array''))"

definition validateRectangle :: "jsval \<Rightarrow> string \<Rightarrow> string list" where
  "validateRectangle rect path =
     (if \<not> is_object rect then [path @ '' must be an object'']
      else
        chk (js_get rect ''_class'' \<noteq> JStr ''rectangle'')
          (path @ ''._class must be \"rectangle\"'')
        @ chk (\<not> isValidUUID (js_get rect ''do_objectID''))
            (path @ ''.do_objectID must be a valid UUID'')
        @ chk (not_string (js_get rect ''name'')) (path @ ''.name must be a string'')
        @ validateRect (js_get rect ''frame'') (path @ ''.frame'')
        @ chk (not_number (js_get rect ''resizingConstraint''))
            (path @ ''.resizingConstraint must be a number'')
        @ chk (not_number (js_get rect ''booleanOperation''))
            (path @ ''.booleanOperation must be a number'')
        @ validateExportOptions (js_get rect ''exportOptions'') (path @ ''.exportOptions'')
        @ chk (not_boolean (js_get rect ''isVisible'')) (path @ ''.isVisible must be a boolean'')
        @ chk (not_boolean (js_get rect ''isLocked'')) (path @ ''.isLocked must be a boolean'')
        @ chk (not_boolean (js_get rect ''edited'')) (path @ ''.edited must be a boolean'')
        @ chk (not_boolean (js_get rect ''isClosed'')) (path @ ''.isClosed must be a boolean'')
        @ chk (not_number (js_get rect ''pointRadiusBehaviour''))
            (path @ ''.pointRadiusBehaviour must be a number'')
        @ chk (not_number (js_get rect ''fixedRadius''))
            (path @ ''.fixedRadius must be a number'')
        @ (if \<not> isArray (js_get rect ''points'') then [path @ ''.points must be an array'']
           else if length (elements (js_get rect ''points'')) \<noteq> 4
             then [path @ ''.points must have exactly 4 points'']
           else concat (map (\<lambda>(pt, i). validateCurvePoint pt (path @ ''.points['' @ digits i @ '']''))
                          (indexed (elements (js_get rect ''points'')))))
        @ (if truthy (js_get rect ''style'')
           then validateStyle (js_get rect ''style'') (path @ ''.style'') else []))"

fun forEach_collect :: "('a \<times> nat \<Rightarrow> js_exn + string list) \<Rightarrow> ('a \<times> nat) list \<Rightarrow> js_exn + string list" where
  \<comment> \<open>\<^verbatim>\<open>forEach\<close> with a callback that pushes messages and may throw: the first exception
      ends the loop.\<close>
  "forEach_collect f [] = Inr []"
| "forEach_collect f (p # ps) =
     (case f p of
        Inl e \<Rightarrow> Inl e
      | Inr es \<Rightarrow> (case forEach_collect f ps of Inl e \<Rightarrow> Inl e | Inr es' \<Rightarrow> Inr (es @ es')))"

definition fontDescriptor_errors :: "jsval \<Rightarrow> string \<Rightarrow> string list" where
  \<comment> \<open>The checks under \<^verbatim>\<open>if (attr.attributes?.MSAttributedStringFontAttribute)\<close>; \<open>p\<close> is
      the path of the attribute.\<close>
  "fontDescriptor_errors attr p =
     (let attrs = js_get attr ''attributes'';
          fontDesc = (if nullish attrs then JUndefined
                      else js_get attrs ''MSAttributedStringFontAttribute'')
      in if \<not> truthy fontDesc then []
         else
           chk (js_get fontDesc ''_class'' \<noteq> JStr ''fontDescriptor'')
             (p @ ''.MSAttributedStringFontAttribute._class must be \"fontDescriptor\"'')
           @ (if \<not> is_object (js_get fontDesc ''attributes'')
              then [p @ ''.MSAttributedStringFontAttribute.attributes is required (Figma compatibility)'']
              else
                chk (not_string (js_get (js_get fontDesc ''attributes'') ''name''))
                  (p @ ''.MSAttributedStringFontAttribute.attributes.name must be a string'')
                @ chk (not_number (js_get (js_get fontDesc ''attributes'') ''size''))
                    (p @ ''.MSAttributedStringFontAttribute.attributes.size must be a number'')))"

definition stringAttribute_errors :: "string \<Rightarrow> jsval \<times> nat \<Rightarrow> js_exn + string list" where
  \<comment> \<open>The callback of \<^verbatim>\<open>text.attributedString.attributes.forEach\<close>.\<close>
  "stringAttribute_errors path = (\<lambda>(attr, i).
     (let p = path @ ''.attributedString.attributes['' @ digits i @ '']''
      in if nullish attr then Inl (cannot_read attr ''_class'')
         else Inr
           (chk (js_get attr ''_class'' \<noteq> JStr ''stringAttribute'')
              (p @ ''._class must be \"stringAttribute\"'')
            @ chk (not_number (js_get attr ''location'')) (p @ ''.location must be a number'')
            @ chk (not_number (js_get attr ''length'')) (p @ ''.length must be a number'')
            @ fontDescriptor_errors attr p)))"

definition attributedString_errors :: "jsval \<Rightarrow> string \<Rightarrow> js_exn + string list" where
  "attributedString_errors text path =
     (let as = js_get text ''attributedString''
      in if \<not> is_object as then Inr [path @ ''.attributedString must be an object'']
         else
           (case (if \<not> isArray (js_get as ''attributes'')
                  then Inr [path @ ''.attributedString.attributes must be an array'']
                  else forEach_collect (stringAttribute_errors path)
                         (indexed (elements (js_get as ''attributes'')))) of
              Inl e \<Rightarrow> Inl e
            | Inr es \<Rightarrow>
                Inr (chk (js_get as ''_class'' \<noteq> JStr ''attributedString'')
                       (path @ ''.attributedString._class must be \"attributedString\"'')
                     @ chk (not_string (js_get as ''string''))
                         (path @ ''.attributedString.string must be a string'')
                     @ es)))"

definition validateText :: "jsval \<Rightarrow> string \<Rightarrow> js_exn + string list" where
  "validateText text path =
     (if \<not> is_object text then Inr [path @ '' must be an object'']
      else
        (case attributedString_errors text path of
           Inl e \<Rightarrow> Inl e
         | Inr as_errors \<Rightarrow>
             Inr (chk (js_get text ''_class'' \<noteq> JStr ''text'') (path @ ''._class must be \"text\"'')
                  @ chk (\<not> isValidUUID (js_get text ''do_objectID''))
                      (path @ ''.do_objectID must be a valid UUID'')
                  @ chk (not_string (js_get text ''name'')) (path @ ''.name must be a string'')
                  @ validateRect (js_get text ''frame'') (path @ ''.frame'')
                  @ chk (not_number (js_get text ''resizingConstraint''))
                      (path @ ''.resizingConstraint must be a number'')
                  @ chk (not_number (js_get text ''booleanOperation''))
                      (path @ ''.booleanOperation must be a number'')
                  @ validateExportOptions (js_get text ''exportOptions'') (path @ ''.exportOptions'')
                  @ chk (not_boolean (js_get text ''isVisible''))
                      (path @ ''.isVisible must be a boolean'')
                  @ as_errors
                  @ (if truthy (js_get text ''style'')
                     then validateStyle (js_get text ''style'') (path @ ''.style'') else []))))"

definition groupLayout_errors :: "jsval \<Rightarrow> string \<Rightarrow> string list" where
  \<comment> \<open>The check of \<^verbatim>\<open>groupLayout\<close>, the same text in \<^verbatim>\<open>validateArtboard\<close> and
      \<^verbatim>\<open>validatePage\<close>.\<close>
  "groupLayout_errors node path =
     (if \<not> is_object (js_get node ''groupLayout'')
      then [path @ ''.groupLayout is required for Figma compatibility'']
      else chk (js_get (js_get node ''groupLayout'') ''_class'' \<noteq> JStr ''MSImmutableFreeformGroupLayout'')
             (path @ ''.groupLayout._class must be \"MSImmutableFreeformGroupLayout\"''))"

definition artboard_layer_errors :: "string \<Rightarrow> jsval \<times> nat \<Rightarrow> js_exn + string list" where
  \<comment> \<open>The callback of \<^verbatim>\<open>artboard.layers.forEach\<close>: a rectangle and a text are validated,
      any other layer falls through both tests.\<close>
  "artboard_layer_errors path = (\<lambda>(layer, i).
     if nullish layer then Inl (cannot_read layer ''_class'')
     else if js_get layer ''_class'' = JStr ''rectangle''
       then Inr (validateRectangle layer (path @ ''.layers['' @ digits i @ '']''))
     else if js_get layer ''_class'' = JStr ''text''
       then validateText layer (path @ ''.layers['' @ digits i @ '']'')
     else Inr [])"

definition validateArtboard :: "jsval \<Rightarrow> string \<Rightarrow> js_exn + string list" where
  "validateArtboard artboard path =
     (if \<not> is_object artboard then Inr [path @ '' must be an object'']
      else
        (case (if \<not> isArray (js_get artboard ''layers'')
               then Inr [path @ ''.layers must be an array'']
               else forEach_collect (artboard_layer_errors path)
                      (indexed (elements (js_get artboard ''layers'')))) of
           Inl e \<Rightarrow> Inl e
         | Inr layer_errors \<Rightarrow>
               Inr (chk (js_get artboard ''_class'' \<noteq> JStr ''artboard'')
                      (path @ ''._class must be \"artboard\"'')
                    @ chk (\<not> isValidUUID (js_get artboard ''do_objectID''))
                        (path @ ''.do_objectID must be a valid UUID'')
                    @ chk (not_string (js_get artboard ''name'')) (path @ ''.name must be a string'')
                    @ groupLayout_errors artboard path
                    @ validateRect (js_get artboard ''frame'') (path @ ''.frame'')
                    @ chk (not_number (js_get artboard ''resizingConstraint''))
                        (path @ ''.resizingConstraint must be a number'')
                    @ chk (not_number (js_get artboard ''booleanOperation''))
                        (path @ ''.booleanOperation must be a number'')
                    @ validateExportOptions (js_get artboard ''exportOptions'')
                        (path @ ''.exportOptions'')
                    @ chk (not_boolean (js_get artboard ''isVisible''))
                        (path @ ''.isVisible must be a boolean'')
                    @ chk (not_boolean (js_get artboard ''hasBackgroundColor''))
                        (path @ ''.hasBackgroundColor must be a boolean'')
                    @ (if truthy (js_get artboard ''backgroundColor'')
                       then validateColor (js_get artboard ''backgroundColor'')
                              (path @ ''.backgroundColor'')
                       else [])
                    @ validateRulerData (js_get artboard ''horizontalRulerData'')
                        (path @ ''.horizontalRulerData'')
                    @ validateRulerData (js_get artboard ''verticalRulerData'')
                        (path @ ''.verticalRulerData'')
                    @ chk (not_boolean (js_get artboard ''hasClickThrough''))
                        (path @ ''.hasClickThrough must be a boolean'')
                    @ layer_errors)))"

definition page_layer_errors :: "string \<Rightarrow> jsval \<times> nat \<Rightarrow> js_exn + string list" where
  \<comment> \<open>The callback of \<^verbatim>\<open>page.layers.forEach\<close>: only an artboard is validated.\<close>
  "page_layer_errors path = (\<lambda>(layer, i).
     if nullish layer then Inl (cannot_read layer ''_class'')
     else if js_get layer ''_class'' = JStr ''artboard''
       then validateArtboard layer (path @ ''.layers['' @ digits i @ '']'')
     else Inr [])"

definition validatePage :: "jsval \<Rightarrow> string \<Rightarrow> js_exn + string list" where
  "validatePage page path =
     (if \<not> is_object page then Inr [path @ '' must be an object'']
      else
        (case (if \<not> isArray (js_get page ''layers'')
               then Inr [path @ ''.layers must be an array'']
               else forEach_collect (page_layer_errors path)
                      (indexed (elements (js_get page ''layers'')))) of
           Inl e \<Rightarrow> Inl e
         | Inr layer_errors \<Rightarrow>
             Inr (chk (js_get page ''_class'' \<noteq> JStr ''page'') (path @ ''._class must be \"page\"'')
                  @ chk (\<not> isValidUUID (js_get page ''do_objectID''))
                      (path @ ''.do_objectID must be a valid UUID'')
                  @ chk (not_string (js_get page ''name'')) (path @ ''.name must be a string'')
                  @ groupLayout_errors page path
                  @ validateRulerData (js_get page ''horizontalRulerData'')
                      (path @ ''.horizontalRulerData'')
                  @ validateRulerData (js_get page ''verticalRulerData'')
                      (path @ ''.verticalRulerData'')
                  @ chk (not_boolean (js_get page ''hasClickThrough''))
                      (path @ ''.hasClickThrough must be a boolean'')
                  @ validateExportOptions (js_get page ''exportOptions'') (path @ ''.exportOptions'')
                  @ layer_errors)))"

definition pageRef_errors :: "string \<Rightarrow> jsval \<times> nat \<Rightarrow> js_exn + string list" where
  \<comment> \<open>The callback of \<^verbatim>\<open>doc.pages.forEach\<close>.\<close>
  "pageRef_errors path = (\<lambda>(pageRef, i).
     (let p = path @ ''.pages['' @ digits i @ '']''
      in if nullish pageRef then Inl (cannot_read pageRef ''_class'')
         else Inr
           (chk (js_get pageRef ''_class'' \<noteq> JStr ''MSJSONFileReference'')
              (p @ ''._class must be \"MSJSONFileReference\"'')
            @ chk (js_get pageRef ''_ref_class'' \<noteq> JStr ''MSImmutablePage'')
                (p @ ''._ref_class must be \"MSImmutablePage\"'')
            @ chk (not_string (js_get pageRef ''_ref'')) (p @ ''._ref must be a string''))))"

definition lacks_class :: "jsval \<Rightarrow> string \<Rightarrow> bool" where
  \<comment> \<open>\<^verbatim>\<open>!v || v._class !== cls\<close>\<close>
  "lacks_class v cls = (\<not> truthy v \<or> js_get v ''_class'' \<noteq> JStr cls)"

definition validateDocument :: "jsval \<Rightarrow> string \<Rightarrow> js_exn + string list" where
  "validateDocument doc path =
     (if \<not> is_object doc then Inr [path @ '' must be an object'']
      else
        (case (if \<not> isArray (js_get doc ''pages'') then Inr [path @ ''.pages must be an array'']
               else forEach_collect (pageRef_errors path)
                      (indexed (elements (js_get doc ''pages'')))) of
           Inl e \<Rightarrow> Inl e
         | Inr page_errors \<Rightarrow>
             Inr (chk (js_get doc ''_class'' \<noteq> JStr ''document'')
                    (path @ ''._class must be \"document\"'')
                  @ chk (\<not> isValidUUID (js_get doc ''do_objectID''))
                      (path @ ''.do_objectID must be a valid UUID'')
                  @ chk (not_string (js_get doc ''appVersion''))
                      (path @ ''.appVersion must be a string'')
                  @ chk (not_number (js_get doc ''build'')) (path @ ''.build must be a number'')
                  @ chk (not_number (js_get doc ''currentPageIndex''))
                      (path @ ''.currentPageIndex must be a number'')
                  @ chk (not_number (js_get doc ''colorSpace''))
                      (path @ ''.colorSpace must be a number'')
                  @ page_errors
                  @ chk (lacks_class (js_get doc ''assets'') ''assetCollection'')
                      (path @ ''.assets must have _class \"assetCollection\"'')
                  @ chk (lacks_class (js_get doc ''layerStyles'') ''sharedStyleContainer'')
                      (path @ ''.layerStyles must have _class \"sharedStyleContainer\"'')
                  @ chk (lacks_class (js_get doc ''layerSymbols'') ''symbolContainer'')
                      (path @ ''.layerSymbols must have _class \"symbolContainer\"'')
                  @ chk (lacks_class (js_get doc ''layerTextStyles'') ''sharedTextStyleContainer'')
                      (path @ ''.layerTextStyles must have _class \"sharedTextStyleContainer\"''))))"

definition artboardEntry_errors :: "string \<Rightarrow> (string \<times> jsval) \<times> nat \<Rightarrow> js_exn + string list" where
  \<comment> \<open>The callback of \<^verbatim>\<open>Object.entries(pageData.artboards).forEach\<close>; \<open>p\<close> is the path of
      the page entry.\<close>
  "artboardEntry_errors p = (\<lambda>((artboardId, artboardData), i).
     if nullish artboardData then Inl (cannot_read artboardData ''name'')
     else Inr
       (chk (\<not> isValidUUID (JStr artboardId))
          (p @ ''.artboards has invalid UUID key: '' @ artboardId)
        @ chk (not_string (js_get artboardData ''name''))
            (p @ ''.artboards['' @ artboardId @ ''].name must be a string'')))"

definition pageEntry_errors :: "string \<Rightarrow> (string \<times> jsval) \<times> nat \<Rightarrow> js_exn + string list" where
  \<comment> \<open>The callback of \<^verbatim>\<open>Object.entries(meta.pagesAndArtboards).forEach\<close>.\<close>
  "pageEntry_errors path = (\<lambda>((pageId, pageData), i).
     (let p = path @ ''.pagesAndArtboards['' @ pageId @ '']''
      in if nullish pageData then Inl (cannot_read pageData ''name'')
         else
           (case (if \<not> is_object (js_get pageData ''artboards'')
                  then Inr [p @ ''.artboards must be an object'']
                  else forEach_collect (artboardEntry_errors p)
                         (indexed (Object_entries (js_get pageData ''artboards'')))) of
              Inl e \<Rightarrow> Inl e
            | Inr es \<Rightarrow>
                Inr (chk (\<not> isValidUUID (JStr pageId))
                       (path @ ''.pagesAndArtboards has invalid UUID key: '' @ pageId)
                     @ chk (not_string (js_get pageData ''name'')) (p @ ''.name must be a string'')
                     @ es))))"

definition validateMeta :: "jsval \<Rightarrow> string \<Rightarrow> js_exn + string list" where
  "validateMeta meta path =
     (if \<not> is_object meta then Inr [path @ '' must be an object'']
      else
        (case (if \<not> is_object (js_get meta ''pagesAndArtboards'')
               then Inr [path @ ''.pagesAndArtboards must be an object'']
               else forEach_collect (pageEntry_errors path)
                      (indexed (Object_entries (js_get meta ''pagesAndArtboards'')))) of
           Inl e \<Rightarrow> Inl e
         | Inr es \<Rightarrow>
             Inr (chk (not_string (js_get meta ''commit'')) (path @ ''.commit must be a string'')
                  @ chk (not_number (js_get meta ''version''))
                      (path @ ''.version must be a number (121-146)'')
                  @ chk (js_get meta ''compatibilityVersion'' \<noteq> JNum 99)
                      (path @ ''.compatibilityVersion must be 99'')
                  @ chk (not_string (js_get meta ''app'')) (path @ ''.app must be a string'')
                  @ chk (not_number (js_get meta ''build'')) (path @ ''.build must be a number'')
                  @ chk (not_string (js_get meta ''appVersion''))
                      (path @ ''.appVersion must be a string'')
                  @ chk (not_number (js_get meta ''autosaved''))
                      (path @ ''.autosaved must be a number (0 or 1)'')
                  @ es)))"

definition user_page_errors :: "jsval \<Rightarrow> string \<Rightarrow> string \<Rightarrow> string list" where
  \<comment> \<open>The callback of \<^verbatim>\<open>pageIds.forEach\<close> in \<^verbatim>\<open>validateUser\<close>.\<close>
  "user_page_errors user path pageId =
     (if \<not> truthy (js_get user pageId) then [path @ '' missing data for page '' @ pageId]
      else
        chk (not_string (js_get (js_get user pageId) ''scrollOrigin''))
          (path @ ''['' @ pageId @ ''].scrollOrigin must be a string'')
        @ chk (not_number (js_get (js_get user pageId) ''zoomValue''))
            (path @ ''['' @ pageId @ ''].zoomValue must be a number''))"

definition validateUser :: "jsval \<Rightarrow> string list \<Rightarrow> string \<Rightarrow> string list" where
  "validateUser user pageIds path =
     (if \<not> is_object user then [path @ '' must be an object'']
      else
        (if \<not> is_object (js_get user ''document'') then [path @ ''.document must be an object'']
         else
           chk (not_number (js_get (js_get user ''document'') ''pageListHeight''))
             (path @ ''.document.pageListHeight must be a number'')
           @ chk (not_number (js_get (js_get user ''document'') ''pageListCollapsed''))
               (path @ ''.document.pageListCollapsed must be a number''))
        @ concat (map (user_page_errors user path) pageIds))"

section \<open>The file system\<close>

text \<open>
  A path is the list of its components, and \<^verbatim>\<open>path.join(dir, name)\<close> adds one (a name
  is one component, whatever characters it has). The file
  system is the table of the directories and files that exist. A file that was written by
  \<^verbatim>\<open>JSON.stringify\<close> is known by the value \<^verbatim>\<open>JSON.parse\<close> reads from it; any other
  text file is known by the message of the \<^verbatim>\<open>SyntaxError\<close> that \<^verbatim>\<open>JSON.parse\<close> throws on
  it. The calls of \<^verbatim>\<open>fs\<close> succeed whenever the table allows them; a failing disk is not
  modelled.
\<close>

type_synonym path = "string list"

datatype fsnode =
    Dir
  | JsonFile jsval
  | TextFile string
  | ZipFile "(path \<times> fsnode) list"

type_synonym filesystem = "(path \<times> fsnode) list"

definition existsSync :: "filesystem \<Rightarrow> path \<Rightarrow> bool" where
  "existsSync fs p = (map_of fs p \<noteq> None)"

definition read_json :: "filesystem \<Rightarrow> path \<Rightarrow> js_exn + jsval" where
  \<comment> \<open>\<^verbatim>\<open>JSON.parse(fs.readFileSync(p, 'utf8'))\<close>\<close>
  "read_json fs p =
     (case map_of fs p of
        None \<Rightarrow> Inl (Error ''ENOENT: no such file or directory'')
      | Some Dir \<Rightarrow> Inl (Error ''EISDIR: illegal operation on a directory, read'')
      | Some (JsonFile v) \<Rightarrow> Inr v
      | Some (TextFile msg) \<Rightarrow> Inl (SyntaxError msg)
      | Some (ZipFile entries) \<Rightarrow> Inl (SyntaxError ''Unexpected token''))"

section \<open>\<^verbatim>\<open>validateSketchDirectory\<close>\<close>

fun replace_first :: "string \<Rightarrow> string \<Rightarrow> string" where
  \<comment> \<open>\<^verbatim>\<open>s.replace(pat, '')\<close> with a text pattern: the first occurrence is removed.\<close>
  "replace_first pat [] = []"
| "replace_first pat (c # cs) =
     (if take (length pat) (c # cs) = pat then drop (length pat) (c # cs)
      else c # replace_first pat cs)"

definition page_id_of :: "jsval \<Rightarrow> js_exn + jsval" where
  \<comment> \<open>\<^verbatim>\<open>pageRef._ref?.replace('pages/', '')\<close>: a reference that is not a text has no
      method \<^verbatim>\<open>replace\<close>, and calling it throws.\<close>
  "page_id_of pageRef =
     (if nullish pageRef then Inl (cannot_read pageRef ''_ref'')
      else case js_get pageRef ''_ref'' of
             JUndefined \<Rightarrow> Inr JUndefined
           | JNull \<Rightarrow> Inr JUndefined
           | JStr r \<Rightarrow> Inr (JStr (replace_first ''pages/'' r))
           | _ \<Rightarrow> Inl (TypeError ''pageRef._ref?.replace is not a function''))"

text \<open>
  The body of the \<^verbatim>\<open>try\<close> block pushes to the array \<^verbatim>\<open>errors\<close> of the enclosing function,
  so what it pushed before an exception stays. Each part of the block returns the messages
  it pushed and the exception that ended it, if one did.
\<close>

type_synonym progress = "string list \<times> js_exn option"

definition and_then :: "progress \<Rightarrow> progress \<Rightarrow> progress" where
  \<comment> \<open>Sequencing: the second part runs only when the first ended without an exception.\<close>
  "and_then a b = (case snd a of Some e \<Rightarrow> a | None \<Rightarrow> (fst a @ fst b, snd b))"

definition pushed :: "js_exn + string list \<Rightarrow> progress" where
  \<comment> \<open>\<^verbatim>\<open>errors.push(...validate(v))\<close>: nothing is pushed when the validator throws.\<close>
  "pushed r = (case r of Inl e \<Rightarrow> ([], Some e) | Inr es \<Rightarrow> (es, None))"

definition check_page :: "filesystem \<Rightarrow> path \<Rightarrow> jsval \<Rightarrow> progress" where
  \<comment> \<open>The body of \<^verbatim>\<open>for (const pageRef of doc.pages)\<close>.\<close>
  "check_page fs pagesDir pageRef =
     (case page_id_of pageRef of
        Inl e \<Rightarrow> ([], Some e)
      | Inr pageId \<Rightarrow>
          if \<not> truthy pageId then ([], None)
          else if \<not> existsSync fs (pagesDir @ [js_ToString pageId @ ''.json''])
            then ([''Missing page file: pages/'' @ js_ToString pageId @ ''.json''], None)
          else (case read_json fs (pagesDir @ [js_ToString pageId @ ''.json'']) of
                  Inl e \<Rightarrow> ([], Some e)
                | Inr page \<Rightarrow> pushed (validatePage page ''page'')))"

fun check_pages :: "filesystem \<Rightarrow> path \<Rightarrow> jsval list \<Rightarrow> progress" where
  "check_pages fs pagesDir [] = ([], None)"
| "check_pages fs pagesDir (pageRef # refs) =
     and_then (check_page fs pagesDir pageRef) (check_pages fs pagesDir refs)"

fun collect_page_ids :: "jsval list \<Rightarrow> js_exn + string list" where
  \<comment> \<open>\<^verbatim>\<open>doc.pages.map(p => p._ref?.replace('pages/', '')).filter(Boolean)\<close>\<close>
  "collect_page_ids [] = Inr []"
| "collect_page_ids (p # ps) =
     (case page_id_of p of
        Inl e \<Rightarrow> Inl e
      | Inr pageId \<Rightarrow>
          (case collect_page_ids ps of
             Inl e \<Rightarrow> Inl e
           | Inr ids \<Rightarrow> Inr (if truthy pageId then js_ToString pageId # ids else ids)))"

definition pageIds_of :: "jsval \<Rightarrow> js_exn + string list" where
  \<comment> \<open>\<^verbatim>\<open>doc.pages?.map(...).filter(Boolean) || []\<close>: only an array has \<^verbatim>\<open>map\<close>.\<close>
  "pageIds_of doc =
     (if nullish doc then Inl (cannot_read doc ''pages'')
      else case js_get doc ''pages'' of
             JUndefined \<Rightarrow> Inr []
           | JNull \<Rightarrow> Inr []
           | JArr ps \<Rightarrow> collect_page_ids ps
           | _ \<Rightarrow> Inl (TypeError ''doc.pages?.map is not a function''))"

definition check_document_pages :: "filesystem \<Rightarrow> path \<Rightarrow> jsval \<Rightarrow> progress" where
  \<comment> \<open>\<^verbatim>\<open>if (doc.pages && Array.isArray(doc.pages)) { for ... }\<close>\<close>
  "check_document_pages fs pagesDir doc =
     (if nullish doc then ([], Some (cannot_read doc ''pages''))
      else if truthy (js_get doc ''pages'') \<and> isArray (js_get doc ''pages'')
        then check_pages fs pagesDir (elements (js_get doc ''pages''))
      else ([], None))"

definition try_block :: "filesystem \<Rightarrow> path \<Rightarrow> progress" where
  "try_block fs sketchDir =
     (case read_json fs (sketchDir @ [''document.json'']) of
        Inl e \<Rightarrow> ([], Some e)
      | Inr doc \<Rightarrow>
          and_then (pushed (validateDocument doc ''document''))
         (and_then (check_document_pages fs (sketchDir @ [''pages'']) doc)
         (case read_json fs (sketchDir @ [''meta.json'']) of
            Inl e \<Rightarrow> ([], Some e)
          | Inr meta \<Rightarrow>
              and_then (pushed (validateMeta meta ''meta''))
                (case read_json fs (sketchDir @ [''user.json'']) of
                   Inl e \<Rightarrow> ([], Some e)
                 | Inr user \<Rightarrow>
                     (case pageIds_of doc of
                        Inl e \<Rightarrow> ([], Some e)
                      | Inr pageIds \<Rightarrow> (validateUser user pageIds ''user'', None))))))"

record validation =
  valid :: bool
  errors :: "string list"

definition validateSketchDirectory :: "filesystem \<Rightarrow> path \<Rightarrow> validation" where
  "validateSketchDirectory fs sketchDir =
     (let missing =
            concat (map (\<lambda>file. chk (\<not> existsSync fs (sketchDir @ [file]))
                                 (''Missing required file: '' @ file))
                      [''document.json'', ''meta.json'', ''user.json''])
            @ chk (\<not> existsSync fs (sketchDir @ [''pages''])) ''Missing pages directory''
      in if length missing > 0 then \<lparr>valid = False, errors = missing\<rparr>
         else
           (let (pushed_errors, thrown) = try_block fs sketchDir;
                errs = pushed_errors
                  @ (case thrown of None \<Rightarrow> [] | Some e \<Rightarrow> [''Error parsing JSON: '' @ message e])
            in \<lparr>valid = (length errs = 0), errors = errs\<rparr>))"

section \<open>The archive serializer: \<^verbatim>\<open>packSketch\<close>\<close>

text \<open>
  \<^verbatim>\<open>packSketch\<close> works on the world: the file system, the random source, the clock read
  by \<^verbatim>\<open>Date.now()\<close>, the home directory and the console. It returns the world it leaves
  and either its result or what it throws (it is an \<^verbatim>\<open>async\<close> function, so a throw
  rejects the promise it returns). The argument \<^verbatim>\<open>documentData\<close> is data: any value that
  has no function inside; a missing or empty \<^verbatim>\<open>outputDir\<close> is \<open>None\<close>. Of the record it returns, the model keeps the paths and the
  name; the compressed size and the paths relative to the working directory of the
  process are left out.
\<close>

record world =
  w_fs :: filesystem
  w_rng :: rng
  w_now :: nat
  w_homedir :: path
  w_console :: "string list"

record pack_options =
  opt_validate :: "bool option"

record pack_result =
  sketchPath :: path
  folderPath :: path
  uncompressedPath :: path
  outputDir :: path
  baseDir :: path
  uniqueFilename :: string

definition SKETCH_VERSION :: string where
  "SKETCH_VERSION = ''74.1''"

definition SKETCH_BUILD :: real where
  "SKETCH_BUILD = 128920"

definition DEFAULT_OUTPUT_DIR :: "path \<Rightarrow> path" where
  "DEFAULT_OUTPUT_DIR home = home @ [''.openclaw'', ''workspace'', ''sketch-output'']"

definition write_node :: "filesystem \<Rightarrow> path \<Rightarrow> fsnode \<Rightarrow> filesystem" where
  "write_node fs p n =
     (if existsSync fs p then map (\<lambda>(q, m). if q = p then (q, n) else (q, m)) fs
      else fs @ [(p, n)])"

fun mkdir_from :: "filesystem \<Rightarrow> path \<Rightarrow> path \<Rightarrow> filesystem" where
  \<comment> \<open>The directories from \<open>parent\<close> down, each made when it is not there.\<close>
  "mkdir_from fs parent [] = fs"
| "mkdir_from fs parent (c # cs) =
     mkdir_from
       (if existsSync fs (parent @ [c]) then fs else write_node fs (parent @ [c]) Dir)
       (parent @ [c]) cs"

definition mkdirSync :: "filesystem \<Rightarrow> path \<Rightarrow> filesystem" where
  \<comment> \<open>\<^verbatim>\<open>fs.mkdirSync(p, { recursive: true })\<close>\<close>
  "mkdirSync fs p = mkdir_from fs [] p"

definition rmSync :: "filesystem \<Rightarrow> path \<Rightarrow> filesystem" where
  \<comment> \<open>\<^verbatim>\<open>fs.rmSync(p, { recursive: true })\<close>: the node and everything below it.\<close>
  "rmSync fs p = filter (\<lambda>(q, n). take (length p) q \<noteq> p) fs"

definition ensureOutputDir :: "filesystem \<Rightarrow> path \<Rightarrow> filesystem" where
  "ensureOutputDir fs dir = (if \<not> existsSync fs dir then mkdirSync fs dir else fs)"

definition is_native :: "jsval \<Rightarrow> bool" where
  "is_native v = (case v of JNative n \<Rightarrow> True | _ \<Rightarrow> False)"

fun jsonify :: "jsval \<Rightarrow> jsval"
  and jsonify_elements :: "jsval list \<Rightarrow> jsval list"
  and jsonify_properties :: "(string \<times> jsval) list \<Rightarrow> (string \<times> jsval) list" where
  \<comment> \<open>What \<^verbatim>\<open>JSON.parse\<close> reads back from \<^verbatim>\<open>JSON.stringify(v, null, 2)\<close>: a property
      without a value is not written, an element without a value is written as \<^verbatim>\<open>null\<close>.\<close>
  "jsonify (JArr xs) = JArr (jsonify_elements xs)"
| "jsonify (JObj kvs) = JObj (jsonify_properties kvs)"
| "jsonify JUndefined = JUndefined"
| "jsonify JNull = JNull"
| "jsonify (JBool b) = JBool b"
| "jsonify (JNum r) = JNum r"
| "jsonify (JStr s) = JStr s"
| "jsonify (JNative n) = JNative n"
| "jsonify_elements [] = []"
| "jsonify_elements (v # vs) =
     (if v = JUndefined \<or> is_native v then JNull else jsonify v) # jsonify_elements vs"
| "jsonify_properties [] = []"
| "jsonify_properties ((k, v) # kvs) =
     (if v = JUndefined \<or> is_native v then jsonify_properties kvs
      else (k, jsonify v) # jsonify_properties kvs)"

definition writeJSON :: "filesystem \<Rightarrow> path \<Rightarrow> string \<Rightarrow> jsval \<Rightarrow> filesystem" where
  "writeJSON fs dir filename data = write_node fs (dir @ [filename]) (JsonFile (jsonify data))"

definition js_set :: "jsval \<Rightarrow> string \<Rightarrow> jsval \<Rightarrow> jsval" where
  \<comment> \<open>\<^verbatim>\<open>v[k] = w\<close>, as far as \<^verbatim>\<open>JSON.stringify\<close> sees it afterwards: an object gets or
      changes the property (the key \<^verbatim>\<open>__proto__\<close> sets no property); on an array a key of
      the source is not an index, and on any other value the assignment does nothing.\<close>
  "js_set v k w =
     (case v of
        JObj kvs \<Rightarrow>
          if k = ''__proto__'' then v
          else if map_of kvs k \<noteq> None
            then JObj (map (\<lambda>(k', w'). if k' = k then (k', w) else (k', w')) kvs)
          else JObj (kvs @ [(k, w)])
      | _ \<Rightarrow> v)"

definition js_or :: "jsval \<Rightarrow> jsval \<Rightarrow> jsval" where
  "js_or a b = (if truthy a then a else b)"

definition js_and :: "jsval \<Rightarrow> jsval \<Rightarrow> jsval" where
  "js_and a b = (if truthy a then b else a)"

definition or_generateUUID :: "jsval \<Rightarrow> rng \<Rightarrow> jsval \<times> rng" where
  \<comment> \<open>\<^verbatim>\<open>v || generateUUID()\<close>: the source is read only when \<open>v\<close> is falsy.\<close>
  "or_generateUUID v g =
     (if truthy v then (v, g) else (let (uuid, g') = generateUUID g in (JStr uuid, g')))"

definition or_container :: "jsval \<Rightarrow> string \<Rightarrow> rng \<Rightarrow> jsval \<times> rng" where
  \<comment> \<open>\<^verbatim>\<open>v || { _class: cls, do_objectID: generateUUID(), objects: [] }\<close>\<close>
  "or_container v cls g =
     (if truthy v then (v, g)
      else (let (uuid, g') = generateUUID g
            in (JObj [(''_class'', JStr cls), (''do_objectID'', JStr uuid), (''objects'', JArr [])],
                g')))"

definition or_assets :: "jsval \<Rightarrow> rng \<Rightarrow> jsval \<times> rng" where
  "or_assets v g =
     (if truthy v then (v, g)
      else (let (uuid, g') = generateUUID g
            in (JObj [(''_class'', JStr ''assetCollection''), (''do_objectID'', JStr uuid),
                      (''colorAssets'', JArr []), (''gradientAssets'', JArr []),
                      (''images'', JArr []), (''colors'', JArr []), (''gradients'', JArr [])],
                g')))"

definition page_reference :: "jsval \<Rightarrow> jsval" where
  "page_reference pid =
     JObj [(''_class'', JStr ''MSJSONFileReference''),
           (''_ref_class'', JStr ''MSImmutablePage''),
           (''_ref'', JStr (''pages/'' @ js_ToString pid))]"

definition document_json :: "jsval \<Rightarrow> jsval list \<Rightarrow> rng \<Rightarrow> jsval \<times> rng" where
  \<comment> \<open>The literal \<^verbatim>\<open>document\<close> of \<^verbatim>\<open>packSketch\<close>; its initialisers run from top to bottom.\<close>
  "document_json documentData pageIds g =
     (let (objectID, g1) = or_generateUUID (js_get documentData ''do_objectID'') g;
          (assets, g2) = or_assets (js_get documentData ''assets'') g1;
          (layerStyles, g3) =
             or_container (js_get documentData ''layerStyles'') ''sharedStyleContainer'' g2;
          (layerSymbols, g4) =
             or_container (js_get documentData ''layerSymbols'') ''symbolContainer'' g3;
          (layerTextStyles, g5) =
             or_container (js_get documentData ''layerTextStyles'') ''sharedTextStyleContainer'' g4;
          (sharedSwatches, g6) = or_container JUndefined ''swatchContainer'' g5
      in (JObj
            [(''_class'', JStr ''document''),
             (''do_objectID'', objectID),
             (''appVersion'', JStr SKETCH_VERSION),
             (''build'', JNum SKETCH_BUILD),
             (''currentPageIndex'', js_or (js_get documentData ''currentPageIndex'') (JNum 0)),
             (''assets'', assets),
             (''colorSpace'',
                if js_get documentData ''colorSpace'' \<noteq> JUndefined
                then js_get documentData ''colorSpace'' else JNum 1),
             (''foreignLayerStyles'', JArr []),
             (''foreignSymbols'', JArr []),
             (''foreignTextStyles'', JArr []),
             (''foreignSwatches'', JArr []),
             (''layerStyles'', layerStyles),
             (''layerSymbols'', layerSymbols),
             (''layerTextStyles'', layerTextStyles),
             (''sharedSwatches'', sharedSwatches),
             (''fontReferences'', JArr []),
             (''documentState'', JObj [(''_class'', JStr ''documentState'')]),
             (''pages'', JArr (map page_reference pageIds))], g6))"

definition ensure_hasClickThrough :: "jsval \<Rightarrow> jsval" where
  \<comment> \<open>\<^verbatim>\<open>if (!v.hasClickThrough) v.hasClickThrough = true\<close>\<close>
  "ensure_hasClickThrough v =
     (if \<not> truthy (js_get v ''hasClickThrough'') then js_set v ''hasClickThrough'' (JBool True)
      else v)"

fun fix_layers :: "jsval list \<Rightarrow> js_exn + jsval list" where
  \<comment> \<open>\<^verbatim>\<open>page.layers.forEach(layer => ...)\<close>: every artboard gets the flag.\<close>
  "fix_layers [] = Inr []"
| "fix_layers (layer # layers) =
     (if nullish layer then Inl (cannot_read layer ''_class'')
      else case fix_layers layers of
             Inl e \<Rightarrow> Inl e
           | Inr ls \<Rightarrow>
               Inr ((if js_get layer ''_class'' = JStr ''artboard''
                     then ensure_hasClickThrough layer else layer) # ls))"

definition fix_page :: "jsval \<Rightarrow> js_exn + jsval" where
  \<comment> \<open>What the callback of \<^verbatim>\<open>pages.forEach\<close> makes of a page before it writes it.\<close>
  "fix_page page =
     (let page1 = ensure_hasClickThrough page
      in if \<not> truthy (js_get page1 ''layers'') then Inr page1
         else case js_get page1 ''layers'' of
                JArr layers \<Rightarrow>
                  (case fix_layers layers of
                     Inl e \<Rightarrow> Inl e
                   | Inr ls \<Rightarrow> Inr (js_set page1 ''layers'' (JArr ls)))
              | _ \<Rightarrow> Inl (TypeError ''page.layers.forEach is not a function''))"

fun write_pages :: "filesystem \<Rightarrow> path \<Rightarrow> jsval list \<Rightarrow> (js_exn + jsval list) \<times> filesystem" where
  \<comment> \<open>\<^verbatim>\<open>pages.forEach(page => ...)\<close>: the pages as the loop leaves them, and the files.\<close>
  "write_pages fs pagesDir [] = (Inr [], fs)"
| "write_pages fs pagesDir (page # pages) =
     (case fix_page page of
        Inl e \<Rightarrow> (Inl e, fs)
      | Inr page' \<Rightarrow>
          (case write_pages
                  (writeJSON fs pagesDir (js_ToString (js_get page ''do_objectID'') @ ''.json'') page')
                  pagesDir pages of
             (Inl e, fs') \<Rightarrow> (Inl e, fs')
           | (Inr ps, fs') \<Rightarrow> (Inr (page' # ps), fs')))"

definition first_page :: "jsval list \<Rightarrow> jsval" where
  "first_page pages = (case pages of [] \<Rightarrow> JUndefined | p # ps \<Rightarrow> p)"

definition first_artboard :: "jsval list \<Rightarrow> jsval" where
  \<comment> \<open>\<^verbatim>\<open>pages[0] && pages[0].layers && pages[0].layers[0]\<close>\<close>
  "first_artboard pages =
     js_and (first_page pages)
       (js_and (js_get (first_page pages) ''layers'')
          (js_get (js_get (first_page pages) ''layers'') ''0''))"

definition meta_json :: "jsval list \<Rightarrow> rng \<Rightarrow> jsval \<times> rng" where
  "meta_json pages g =
     (let (pageId, g1) =
            or_generateUUID (js_and (first_page pages) (js_get (first_page pages) ''do_objectID'')) g;
          (artboardId, g2) =
            or_generateUUID
              (js_and (first_artboard pages) (js_get (first_artboard pages) ''do_objectID'')) g1;
          artboardName =
            js_or (js_and (first_artboard pages) (js_get (first_artboard pages) ''name''))
              (JStr ''Artboard'');
          pageName = js_or (js_and (first_page pages) (js_get (first_page pages) ''name''))
                       (JStr ''Page 1'');
          artboards = js_set (JObj []) (js_ToString artboardId) (JObj [(''name'', artboardName)]);
          pageEntry = JObj [(''name'', pageName), (''artboards'', artboards)];
          created =
            JObj [(''commit'', JStr ''238f363ed3de77eb1d86e03176f8a10f7928ed51''),
                  (''appVersion'', JStr SKETCH_VERSION),
                  (''build'', JNum SKETCH_BUILD),
                  (''app'', JStr ''com.bohemiancoding.sketch3''),
                  (''compatibilityVersion'', JNum 99),
                  (''coeditCompatibilityVersion'', JNum 99),
                  (''version'', JNum 136),
                  (''variant'', JStr ''NONAPPSTORE'')]
      in (JObj
            [(''commit'', JStr ''eec98fa25f4692ad75f1a3b955a6293b4a93836e''),
             (''version'', JNum 136),
             (''compatibilityVersion'', JNum 99),
             (''app'', JStr ''com.bohemiancoding.sketch3''),
             (''autosaved'', JNum 0),
             (''pagesAndArtboards'', js_set (JObj []) (js_ToString pageId) pageEntry),
             (''variant'', JStr ''NONAPPSTORE''),
             (''fonts'', JArr []),
             (''created'', created),
             (''appVersion'', JStr SKETCH_VERSION),
             (''build'', JNum SKETCH_BUILD)], g2))"

definition user_json :: "jsval list \<Rightarrow> jsval" where
  "user_json pageIds =
     fold (\<lambda>pid user. js_set user (js_ToString pid)
             (JObj [(''scrollOrigin'', JStr ''{-0.000000, -0.000000}''),
                    (''zoomValue'', JNum 0.796296238899231)]))
       pageIds
       (JObj [(''document'',
               JObj [(''pageListHeight'', JNum 85), (''pageListCollapsed'', JNum 0)])])"

definition zip_entries :: "filesystem \<Rightarrow> path \<Rightarrow> (path \<times> fsnode) list" where
  \<comment> \<open>What \<^verbatim>\<open>addEntries\<close> collects: every node below the directory, under its path
      relative to the directory.\<close>
  "zip_entries fs dir =
     map (\<lambda>(q, n). (drop (length dir) q, n))
       (filter (\<lambda>(q, n). take (length dir) q = dir \<and> q \<noteq> dir) fs)"

definition createZipWithAdmZip :: "filesystem \<Rightarrow> path \<Rightarrow> path \<Rightarrow> filesystem" where
  "createZipWithAdmZip fs sourceDir outputPath =
     write_node fs outputPath (ZipFile (zip_entries fs sourceDir))"

definition page_ids :: "jsval list \<Rightarrow> js_exn + jsval list" where
  \<comment> \<open>\<^verbatim>\<open>pages.map(p => p.do_objectID)\<close>\<close>
  "page_ids pages =
     (case filter nullish pages of
        [] \<Rightarrow> Inr (map (\<lambda>p. js_get p ''do_objectID'') pages)
      | p # ps \<Rightarrow> Inl (cannot_read p ''do_objectID''))"

definition prepare_directories :: "filesystem \<Rightarrow> path \<Rightarrow> string \<Rightarrow> filesystem" where
  \<comment> \<open>The first lines of \<^verbatim>\<open>packSketch\<close>: the output directory is made when it is missing,
      a directory left under the unique name is removed, and the directory and its
      \<^verbatim>\<open>pages\<close> are made.\<close>
  "prepare_directories fs base unique =
     (let fs1 = ensureOutputDir fs base;
          sketchDir = base @ [unique];
          fs2 = (if existsSync fs1 sketchDir then rmSync fs1 sketchDir else fs1);
          fs3 = mkdirSync fs2 sketchDir
      in mkdirSync fs3 (sketchDir @ [''pages'']))"

definition write_sketch_files ::
  "jsval \<Rightarrow> string option \<Rightarrow> path option \<Rightarrow> world \<Rightarrow> (js_exn + path \<times> string) \<times> world" where
  \<comment> \<open>\<^verbatim>\<open>packSketch\<close> up to the line \<^verbatim>\<open>if (validate)\<close>: the directory and its four kinds of
      file. The result is \<^verbatim>\<open>baseDir\<close> and \<^verbatim>\<open>uniqueFilename\<close>.\<close>
  "write_sketch_files documentData filename outDir w =
     (let name = or_string filename ''design'';
          base = (case outDir of Some d \<Rightarrow> d | None \<Rightarrow> DEFAULT_OUTPUT_DIR (w_homedir w));
          unique = name @ ''_'' @ digits (w_now w);
          sketchDir = base @ [unique];
          pagesDir = sketchDir @ [''pages''];
          fs4 = prepare_directories (w_fs w) base unique
      in if nullish documentData
         then (Inl (cannot_read documentData ''pages''), w\<lparr>w_fs := fs4\<rparr>)
         else case js_or (js_get documentData ''pages'') (JArr []) of
           JArr pages \<Rightarrow>
             (case page_ids pages of
                Inl e \<Rightarrow> (Inl e, w\<lparr>w_fs := fs4\<rparr>)
              | Inr pageIds \<Rightarrow>
                  (let (document, g1) = document_json documentData pageIds (w_rng w);
                       fs5 = writeJSON fs4 sketchDir ''document.json'' document;
                       (written, fs6) = write_pages fs5 pagesDir pages
                   in case written of
                        Inl e \<Rightarrow> (Inl e, w\<lparr>w_fs := fs6, w_rng := g1\<rparr>)
                      | Inr pages' \<Rightarrow>
                          (let (meta, g2) = meta_json pages' g1;
                               fs7 = writeJSON fs6 sketchDir ''meta.json'' meta;
                               fs8 = writeJSON fs7 sketchDir ''user.json'' (user_json pageIds)
                           in (Inr (base, unique), w\<lparr>w_fs := fs8, w_rng := g2\<rparr>))))
         | _ \<Rightarrow> (Inl (TypeError ''pages.map is not a function''), w\<lparr>w_fs := fs4\<rparr>))"

definition packSketch ::
  "jsval \<Rightarrow> string option \<Rightarrow> path option \<Rightarrow> pack_options \<Rightarrow> world
    \<Rightarrow> (js_exn + pack_result) \<times> world" where
  "packSketch documentData filename outDir options w =
     (let validate = (opt_validate options \<noteq> Some False);
          (written, w1) = write_sketch_files documentData filename outDir w
      in case written of
           Inl e \<Rightarrow> (Inl e, w1)
         | Inr (base, unique) \<Rightarrow>
             if validate \<and> \<not> valid (validateSketchDirectory (w_fs w1) (base @ [unique]))
             then (Inl (Error ''Sketch validation failed''), w1)
             else
               (let archive = base @ [unique @ ''.sketch''];
                    fs9 = createZipWithAdmZip (w_fs w1) (base @ [unique]) archive
                in (Inr \<lparr>sketchPath = archive, folderPath = base @ [unique],
                         uncompressedPath = base @ [unique], outputDir = base,
                         baseDir = base, uniqueFilename = unique\<rparr>,
                    w1\<lparr>w_fs := fs9,
                       w_console := w_console w1
                         @ (if validate then [''Sketch validation passed''] else [])\<rparr>)))"

section \<open>Example inputs\<close>

text \<open>
  The palette and the context \<^verbatim>\<open>generateSketchJSON\<close> passes to \<^verbatim>\<open>generateModule\<close> for the
  light theme and an artboard 393 wide: the palette has no \<^verbatim>\<open>border\<close>, and the padding
  is 16.
\<close>

definition light_palette :: colorPalette where
  "light_palette =
     \<lparr>primary = JStr ''#007AFF'', secondary = JStr ''#5856D6'', background = JStr ''#F2F2F7'',
      surface = JStr ''#FFFFFF'', textPrimary = JStr ''#1C1C1E'',
      textSecondary = JStr ''#8E8E93'', palette_border = JUndefined\<rparr>"

definition phone_context :: module_context where
  "phone_context = \<lparr>ctx_x = 16, ctx_y = 0, ctx_width = 361, ctx_colorPalette = light_palette\<rparr>"

definition orders_table :: dataTable_module where
  \<comment> \<open>A table of two columns and two rows whose last cells are the actions.\<close>
  "orders_table =
     \<lparr>module_height = Some 300, module_title = Some (utf16_of ''Orders''),
      module_columns = Some [\<lparr>column_name = utf16_of ''No'', column_width = 80\<rparr>,
                             \<lparr>column_name = utf16_of ''Total'', column_width = 80\<rparr>],
      module_rows = Some [[utf16_of ''1'', utf16_of ''20'', utf16_of ''edit''],
                          [utf16_of ''2'', utf16_of ''35'', utf16_of ''edit'']],
      module_hasCheckbox = False, module_hasActions = True\<rparr>"

definition empty_table :: dataTable_module where
  \<comment> \<open>A table with an action column and no row yet.\<close>
  "empty_table =
     \<lparr>module_height = None, module_title = None,
      module_columns = Some [\<lparr>column_name = utf16_of ''No'', column_width = 80\<rparr>],
      module_rows = Some [], module_hasCheckbox = False, module_hasActions = True\<rparr>"

text \<open>
  An artboard and a page that are well formed in every field the validator checks, each
  with one layer whose tag names no kind of layer.
\<close>

definition valid_exportOptions :: jsval where
  "valid_exportOptions =
     JObj [(''_class'', JStr ''exportOptions''), (''exportFormats'', JArr []),
           (''includedLayerIds'', JArr []), (''layerOptions'', JNum 0),
           (''shouldTrim'', JBool False)]"

definition valid_rulerData :: jsval where
  "valid_rulerData =
     JObj [(''_class'', JStr ''rulerData''), (''base'', JNum 0), (''guides'', JArr [])]"

definition stray_layer :: jsval where
  "stray_layer = JObj [(''_class'', JStr ''notALayer''), (''name'', JNum 7)]"

definition stray_artboard :: jsval where
  "stray_artboard =
     JObj [(''_class'', JStr ''artboard''),
           (''do_objectID'', JStr ''0A1B2C3D-0000-4000-8000-00000000000A''),
           (''name'', JStr ''Design''),
           (''groupLayout'', JObj [(''_class'', JStr ''MSImmutableFreeformGroupLayout'')]),
           (''frame'', JObj [(''_class'', JStr ''rect''), (''x'', JNum 0), (''y'', JNum 0),
                             (''width'', JNum 393), (''height'', JNum 852)]),
           (''resizingConstraint'', JNum 63),
           (''booleanOperation'', JNum (- 1)),
           (''exportOptions'', valid_exportOptions),
           (''isVisible'', JBool True),
           (''hasBackgroundColor'', JBool False),
           (''horizontalRulerData'', valid_rulerData),
           (''verticalRulerData'', valid_rulerData),
           (''hasClickThrough'', JBool True),
           (''layers'', JArr [stray_layer])]"

definition stray_page :: jsval where
  "stray_page =
     JObj [(''_class'', JStr ''page''),
           (''do_objectID'', JStr ''0A1B2C3D-0000-4000-8000-00000000000B''),
           (''name'', JStr ''Design''),
           (''groupLayout'', JObj [(''_class'', JStr ''MSImmutableFreeformGroupLayout'')]),
           (''horizontalRulerData'', valid_rulerData),
           (''verticalRulerData'', valid_rulerData),
           (''hasClickThrough'', JBool True),
           (''exportOptions'', valid_exportOptions),
           (''layers'', JArr [stray_layer])]"

text \<open>
  A directory with a well-formed \<^verbatim>\<open>document.json\<close> that names two pages. The file of the
  first page is cut short, so \<^verbatim>\<open>JSON.parse\<close> throws on it; the file of the second page,
  \<^verbatim>\<open>meta.json\<close> and \<^verbatim>\<open>user.json\<close> hold the empty object, which breaks the rules of
  each.
\<close>

definition two_page_document :: jsval where
  "two_page_document =
     JObj [(''_class'', JStr ''document''),
           (''do_objectID'', JStr ''0A1B2C3D-0000-4000-8000-00000000000C''),
           (''appVersion'', JStr ''74.1''),
           (''build'', JNum 128920),
           (''currentPageIndex'', JNum 0),
           (''colorSpace'', JNum 1),
           (''assets'', JObj [(''_class'', JStr ''assetCollection'')]),
           (''layerStyles'', JObj [(''_class'', JStr ''sharedStyleContainer'')]),
           (''layerSymbols'', JObj [(''_class'', JStr ''symbolContainer'')]),
           (''layerTextStyles'', JObj [(''_class'', JStr ''sharedTextStyleContainer'')]),
           (''pages'', JArr [page_reference (JStr ''P1''), page_reference (JStr ''P2'')])]"

definition broken_directory :: filesystem where
  "broken_directory =
     [([''d''], Dir),
      ([''d'', ''pages''], Dir),
      ([''d'', ''document.json''], JsonFile two_page_document),
      ([''d'', ''pages'', ''P1.json''], TextFile ''Unexpected end of JSON input''),
      ([''d'', ''pages'', ''P2.json''], JsonFile (JObj [])),
      ([''d'', ''meta.json''], JsonFile (JObj [])),
      ([''d'', ''user.json''], JsonFile (JObj []))]"

text \<open>
  A world with an empty disk, and two arguments for \<^verbatim>\<open>packSketch\<close>: the empty document,
  and a document whose one page has nothing but an identifier.
\<close>

definition fresh_world :: world where
  "fresh_world =
     \<lparr>w_fs = [], w_rng = (\<lambda>n. 1 / 2), w_now = 42, w_homedir = [''home''], w_console = []\<rparr>"

definition bare_page_document :: jsval where
  "bare_page_document = JObj [(''pages'', JArr [JObj [(''do_objectID'', JStr ''P1'')]])]"

section \<open>Properties of the identifiers\<close>

lemma rng_ok_Math_random:
  assumes "rng_ok g"
  shows "0 \<le> fst (Math_random g)" and "fst (Math_random g) < 1"
    and "rng_ok (snd (Math_random g))"
  using assms by (simp_all add: rng_ok_def Math_random_def)

lemma ToInt32_small:
  assumes "0 \<le> x" and "x < 16"
  shows "ToInt32 x = \<lfloor>x\<rfloor>" and "0 \<le> \<lfloor>x\<rfloor>" and "\<lfloor>x\<rfloor> < 16"
proof -
  show lo: "0 \<le> \<lfloor>x\<rfloor>" using assms by simp
  show hi: "\<lfloor>x\<rfloor> < 16" using assms by (simp add: floor_less_iff)
  from lo hi have "\<lfloor>x\<rfloor> mod 2 ^ 32 = \<lfloor>x\<rfloor>" by simp
  with lo hi assms show "ToInt32 x = \<lfloor>x\<rfloor>" by (simp add: ToInt32_def Let_def)
qed

lemma hex_digit_16:
  assumes "0 \<le> r" and "r < 1"
  shows "\<exists>c. index_text hex (ToInt32 (r * 16) OR 0) = [c] \<and> c \<in> set ''0123456789ABCDEF''"
proof -
  have b: "0 \<le> r * 16" "r * 16 < 16" using assms by simp_all
  define k where "k = \<lfloor>r * 16\<rfloor>"
  have k: "ToInt32 (r * 16) = k" "0 \<le> k" "k < 16"
    using ToInt32_small [OF b] by (simp_all add: k_def)
  then have "nat k < length ''0123456789ABCDEF''" by simp
  then have m: "''0123456789ABCDEF'' ! nat k \<in> set ''0123456789ABCDEF''"
    by (rule nth_mem)
  have "index_text hex (ToInt32 (r * 16) OR 0) = [''0123456789ABCDEF'' ! nat k]"
    using k by (simp add: index_text_def hex_def)
  with m show ?thesis by blast
qed

lemma hex_digit_4:
  assumes "0 \<le> r" and "r < 1"
  shows "\<exists>c. index_text hex (ToInt32 (r * 4) OR 8) = [c] \<and> c \<in> set ''89AB''"
proof -
  have b: "0 \<le> r * 4" "r * 4 < 16" using assms by simp_all
  define k where "k = \<lfloor>r * 4\<rfloor>"
  have k: "ToInt32 (r * 4) = k" "0 \<le> k"
    using ToInt32_small [OF b] by (simp_all add: k_def)
  have "k < 4" using assms by (simp add: k_def floor_less_iff)
  with k have "k = 0 \<or> k = 1 \<or> k = 2 \<or> k = 3" by arith
  then show ?thesis
    using k by (auto simp add: index_text_def hex_def)
qed

lemma uuidRegex_map:
  "uuidRegex = map (\<lambda>i. if i = 8 \<or> i = 13 \<or> i = 18 \<or> i = 23 then ''-''
      else if i = 14 then ''4''
      else if i = 19 then ''89AB''
      else ''0123456789ABCDEF'') [0..<36]"
  by code_simp

lemma uuidRegex_nth:
  assumes "i < 36"
  shows "uuidRegex ! i =
     (if i = 8 \<or> i = 13 \<or> i = 18 \<or> i = 23 then ''-''
      else if i = 14 then ''4''
      else if i = 19 then ''89AB''
      else ''0123456789ABCDEF'')"
  using assms by (simp only: uuidRegex_map nth_map length_upt nth_upt minus_nat.diff_0 add_0)

lemma uuidRegex_length: "length uuidRegex = 36"
  by (simp add: uuidRegex_def)

lemma uuid_char_class:
  assumes "rng_ok g" and "i < 36"
  shows "\<exists>c. fst (uuid_char i g) = [c] \<and> c \<in> set (uuidRegex ! i)"
    and "rng_ok (snd (uuid_char i g))"
proof -
  note r = rng_ok_Math_random [OF assms(1)]
  show "\<exists>c. fst (uuid_char i g) = [c] \<and> c \<in> set (uuidRegex ! i)"
    using hex_digit_16 [OF r(1,2)] hex_digit_4 [OF r(1,2)]
    by (auto simp add: uuid_char_def uuidRegex_nth [OF assms(2)] split_def Let_def)
  show "rng_ok (snd (uuid_char i g))"
    using r(3) assms(1) by (simp add: uuid_char_def split_def Let_def)
qed

lemma uuid_loop_classes:
  assumes "rng_ok g" and "i \<le> 36"
    and "list_all2 (\<lambda>cl c. c \<in> set cl) (take i uuidRegex) uuid"
  shows "list_all2 (\<lambda>cl c. c \<in> set cl) uuidRegex (fst (uuid_loop i uuid g))"
  using assms
proof (induction i uuid g rule: uuid_loop.induct)
  case (1 i uuid g)
  show ?case
  proof (cases "i < 36")
    case True
    obtain c where c: "fst (uuid_char i g) = [c]" "c \<in> set (uuidRegex ! i)"
      using uuid_char_class(1) [OF "1.prems"(1) True] by blast
    have g': "rng_ok (snd (uuid_char i g))"
      by (rule uuid_char_class(2) [OF "1.prems"(1) True])
    have tk: "take (i + 1) uuidRegex = take i uuidRegex @ [uuidRegex ! i]"
      using True by (simp add: take_Suc_conv_app_nth uuidRegex_length)
    have step: "list_all2 (\<lambda>cl c. c \<in> set cl) (take (i + 1) uuidRegex) (uuid @ [c])"
      unfolding tk using "1.prems"(3) c(2) by (simp add: list_all2_appendI)
    have eq: "(fst (uuid_char i g), snd (uuid_char i g)) = uuid_char i g" by simp
    have "list_all2 (\<lambda>cl c. c \<in> set cl) uuidRegex
            (fst (uuid_loop (i + 1) (uuid @ fst (uuid_char i g)) (snd (uuid_char i g))))"
    proof (rule "1.IH" [OF True refl eq g'])
      show "i + 1 \<le> 36" using True by simp
      show "list_all2 (\<lambda>cl c. c \<in> set cl) (take (i + 1) uuidRegex) (uuid @ fst (uuid_char i g))"
        using step c(1) by simp
    qed
    then show ?thesis
      using True c(1) by (subst uuid_loop.simps) (simp add: split_def)
  next
    case False
    with "1.prems"(2) have "i = 36" by simp
    then show ?thesis
      using "1.prems"(3) by (subst uuid_loop.simps) (simp add: uuidRegex_length)
  qed
qed

lemma toUpperCase_char_fixed:
  assumes "c \<in> set ''0123456789ABCDEF-''"
  shows "toUpperCase_char c = c"
proof -
  from assms have "c = CHR ''0'' \<or> c = CHR ''1'' \<or> c = CHR ''2'' \<or> c = CHR ''3''
      \<or> c = CHR ''4'' \<or> c = CHR ''5'' \<or> c = CHR ''6'' \<or> c = CHR ''7'' \<or> c = CHR ''8''
      \<or> c = CHR ''9'' \<or> c = CHR ''A'' \<or> c = CHR ''B'' \<or> c = CHR ''C'' \<or> c = CHR ''D''
      \<or> c = CHR ''E'' \<or> c = CHR ''F'' \<or> c = CHR ''-''"
    by simp
  then show ?thesis
    by (elim disjE) (simp_all add: toUpperCase_char_def)
qed

lemma uuidRegex_members:
  assumes "n < 36" and "c \<in> set (uuidRegex ! n)"
  shows "c \<in> set ''0123456789ABCDEF-''"
proof -
  consider "uuidRegex ! n = ''-''" | "uuidRegex ! n = ''4''" | "uuidRegex ! n = ''89AB''"
    | "uuidRegex ! n = ''0123456789ABCDEF''"
    unfolding uuidRegex_nth [OF assms(1)] by presburger
  then show ?thesis
  proof cases
    case 1
    with assms(2) show ?thesis by simp
  next
    case 2
    with assms(2) show ?thesis by simp
  next
    case 3
    with assms(2) have "c = CHR ''8'' \<or> c = CHR ''9'' \<or> c = CHR ''A'' \<or> c = CHR ''B''"
      by simp
    then show ?thesis by (elim disjE) simp_all
  next
    case 4
    with assms(2) have c: "c \<in> set ''0123456789ABCDEF''" by simp
    have "''0123456789ABCDEF-'' = ''0123456789ABCDEF'' @ ''-''" by simp
    then have "set ''0123456789ABCDEF-'' = set ''0123456789ABCDEF'' \<union> set ''-''"
      by (simp only: set_append)
    with c show ?thesis by blast
  qed
qed

lemma generateUUID_classes:
  assumes "rng_ok g"
  shows "list_all2 (\<lambda>cl c. c \<in> set cl) uuidRegex (fst (generateUUID g))"
proof -
  let ?u = "fst (uuid_loop 0 [] g)"
  have raw: "list_all2 (\<lambda>cl c. c \<in> set cl) uuidRegex ?u"
    using uuid_loop_classes [OF assms, of 0 "[]"] by simp
  have "map toUpperCase_char ?u = ?u"
  proof (rule map_idI)
    fix c assume "c \<in> set ?u"
    then obtain n where n: "n < length ?u" "?u ! n = c" by (auto simp add: in_set_conv_nth)
    from raw n have "c \<in> set (uuidRegex ! n)" and "n < 36"
      by (auto simp add: list_all2_conv_all_nth uuidRegex_length)
    then show "toUpperCase_char c = c"
      by (intro toUpperCase_char_fixed uuidRegex_members)
  qed
  with raw show ?thesis
    by (simp add: generateUUID_def split_def toUpperCase_def)
qed

text \<open>
  C2. Whatever values in \<open>[0, 1)\<close> the random source yields, \<^verbatim>\<open>generateUUID\<close> returns a
  text of 36 characters with a dash at positions 8, 13, 18 and 23, the character 4 at
  position 14, one of 8, 9, A, B at position 19 and an upper-case hexadecimal digit
  everywhere else, and the validator's \<^verbatim>\<open>isValidUUID\<close> accepts it.
\<close>

theorem generateUUID_canonical:
  assumes "rng_ok g"
  shows "length (fst (generateUUID g)) = 36
    \<and> fst (generateUUID g) ! 8 = CHR ''-'' \<and> fst (generateUUID g) ! 13 = CHR ''-''
    \<and> fst (generateUUID g) ! 18 = CHR ''-'' \<and> fst (generateUUID g) ! 23 = CHR ''-''
    \<and> fst (generateUUID g) ! 14 = CHR ''4''
    \<and> fst (generateUUID g) ! 19 \<in> {CHR ''8'', CHR ''9'', CHR ''A'', CHR ''B''}
    \<and> (\<forall>i < 36. i \<notin> {8, 13, 14, 18, 19, 23} \<longrightarrow>
          fst (generateUUID g) ! i \<in> set ''0123456789ABCDEF'')
    \<and> isValidUUID (JStr (fst (generateUUID g)))"
proof -
  let ?u = "fst (generateUUID g)"
  note cl = generateUUID_classes [OF assms]
  have len: "length ?u = 36"
    using list_all2_lengthD [OF cl] by (simp add: uuidRegex_length)
  have nth: "?u ! i \<in> set (uuidRegex ! i)" if "i < 36" for i
    using cl that by (simp add: list_all2_conv_all_nth uuidRegex_length)
  have valid: "isValidUUID (JStr ?u)"
    unfolding isValidUUID_def regex_test_i_def js_ToString.simps
    by (rule list_all2_mono [OF cl]) (simp add: in_class_i_def)
  have "?u ! 8 = CHR ''-''" "?u ! 13 = CHR ''-''" "?u ! 18 = CHR ''-''" "?u ! 23 = CHR ''-''"
    "?u ! 14 = CHR ''4''" "?u ! 19 \<in> {CHR ''8'', CHR ''9'', CHR ''A'', CHR ''B''}"
    using nth [of 8] nth [of 13] nth [of 18] nth [of 23] nth [of 14] nth [of 19]
    by (simp_all add: uuidRegex_nth)
  moreover have "\<forall>i < 36. i \<notin> {8, 13, 14, 18, 19, 23} \<longrightarrow> ?u ! i \<in> set ''0123456789ABCDEF''"
  proof (intro allI impI)
    fix i :: nat
    assume i: "i < 36" "i \<notin> {8, 13, 14, 18, 19, 23}"
    then have "uuidRegex ! i = ''0123456789ABCDEF''" by (simp add: uuidRegex_nth)
    with nth [OF i(1)] show "?u ! i \<in> set ''0123456789ABCDEF''" by simp
  qed
  ultimately show ?thesis using len valid by blast
qed

theorem generateUUID_canonical_witness:
  "rng_ok (\<lambda>n. 1 / 2)
   \<and> fst (generateUUID (\<lambda>n. 1 / 2)) = ''88888888-8888-4888-A888-888888888888''
   \<and> isValidUUID (JStr (fst (generateUUID (\<lambda>n. 1 / 2))))"
proof -
  have ok: "rng_ok (\<lambda>n. 1 / 2)" by (simp add: rng_ok_def)
  have "fst (generateUUID (\<lambda>n. 1 / 2)) = ''88888888-8888-4888-A888-888888888888''"
    by code_simp
  with ok generateUUID_canonical [OF ok] show ?thesis by simp
qed

end
